(* ===== verification/PPU_Prelude.thy ===== *)
theory PPU_Prelude
  imports Main "HOL-Library.Word"
begin

text \<open>
  Shared vocabulary of the PPU development: the machine-integer types of the emulator, the
  bit-field view that the register bank and the two address latches are built from, and the
  generic lemmas on words, lists and iterated functions that the component theories use.

  The source overlays named bit fields on backing integers (\<^verbatim>\<open>reg.InVBlank\<close>,
  \<^verbatim>\<open>vaddr.xcoarse\<close>, \<^verbatim>\<open>scroll.vaddrhi\<close>, ...). A field is a position and a width;
  \<open>bf_get\<close> reads it (shift right, mask), \<open>bf_set\<close> assigns it (clear the field, or in the
  masked value) and \<open>bf_inc\<close> is the pre-increment \<^verbatim>\<open>++field\<close>, which wraps inside the
  field and leaves its neighbours alone. Every one-bit field that the source assigns receives
  0 or 1 (\<^verbatim>\<open>true\<close>, \<^verbatim>\<open>false\<close>, \<^verbatim>\<open>1 - bit\<close> or another one-bit field), so masking the
  assigned value is all an assignment has to do.
\<close>

unbundle bit_operations_syntax

named_theorems bf_simps \<open>laws of bit-field reads and assignments\<close>
named_theorems reg_defs \<open>definitions of the register-bank and latch accessors\<close>
named_theorems mask_eqs \<open>the masks of the source as \<open>mask n\<close>\<close>
named_theorems ppu_frame \<open>fields that an operation leaves unchanged\<close>

type_synonym byte = "8 word"
type_synonym u16 = "16 word"
type_synonym u32 = "32 word"

section \<open>Bit fields\<close>

definition bf_get :: "nat \<Rightarrow> nat \<Rightarrow> 'a::len word \<Rightarrow> 'a word" where
  "bf_get pos len w = take_bit len (drop_bit pos w)"

definition bf_set :: "nat \<Rightarrow> nat \<Rightarrow> 'a::len word \<Rightarrow> 'a word \<Rightarrow> 'a word" where
  "bf_set pos len v w = (w AND NOT (push_bit pos (mask len))) OR push_bit pos (take_bit len v)"

definition bf_inc :: "nat \<Rightarrow> nat \<Rightarrow> 'a::len word \<Rightarrow> 'a word" where
  "bf_inc pos len w = bf_set pos len (bf_get pos len w + 1) w"

lemma bit_bf_get [bit_simps]:
  "bit (bf_get pos len w) n \<longleftrightarrow> n < len \<and> bit w (pos + n)"
  by (simp add: bf_get_def bit_simps ac_simps)

lemma bit_bf_set [bit_simps]:
  "bit (bf_set pos len v w) n \<longleftrightarrow>
     n < LENGTH('a) \<and> (if pos \<le> n \<and> n < pos + len then bit v (n - pos) else bit w n)"
  for w :: "'a::len word"
  by (auto simp add: bf_set_def bit_simps dest: bit_imp_le_length)

lemma bf_get_0 [simp]: "bf_get pos len 0 = 0"
  by (simp add: bf_get_def)

text \<open>Reading back the field just written gives the value, truncated to the field.\<close>

lemma bf_get_set_same [bf_simps]:
  "pos + len \<le> LENGTH('a) \<Longrightarrow> bf_get pos len (bf_set pos len v w) = take_bit len v"
  for w :: "'a::len word"
  by (rule bit_word_eqI) (auto simp add: bit_simps)

text \<open>Writing one field does not disturb a field that does not overlap it.\<close>

lemma bf_get_set_other [bf_simps]:
  "pos' + len' \<le> pos \<or> pos + len \<le> pos' \<Longrightarrow>
   bf_get pos' len' (bf_set pos len v w) = bf_get pos' len' w"
  by (rule bit_word_eqI) (auto simp add: bit_simps dest: bit_imp_le_length)

lemma bf_set_get_id [bf_simps]: "bf_set pos len (bf_get pos len w) w = w"
  by (rule bit_word_eqI) (auto simp add: bit_simps dest: bit_imp_le_length)

lemma bf_set_set_same [bf_simps]: "bf_set pos len v (bf_set pos len u w) = bf_set pos len v w"
  by (rule bit_word_eqI) (auto simp add: bit_simps)

text \<open>A field that lies inside the field just written reads the matching part of the
  written value: \<^verbatim>\<open>reg.ShowBG\<close> after \<^verbatim>\<open>reg.dispctrl = data\<close>.\<close>

lemma bf_get_set_sub [bf_simps]:
  "pos \<le> pos' \<Longrightarrow> pos' + len' \<le> pos + len \<Longrightarrow> pos + len \<le> LENGTH('a) \<Longrightarrow>
   bf_get pos' len' (bf_set pos len v w) = bf_get (pos' - pos) len' v"
  for w :: "'a::len word"
  by (rule bit_word_eqI) (auto simp add: bit_simps)

lemma unat_bf_get_less: "unat (bf_get pos len w) < 2 ^ len"
  by (simp add: bf_get_def unsigned_take_bit_eq)

text \<open>A field of a whole-width value is the field of its truncation: assignments only see
  the low \<open>len\<close> bits of what is assigned.\<close>

lemma bf_set_take_bit [bf_simps]: "bf_set pos len (take_bit len v) w = bf_set pos len v w"
  by (simp add: bf_set_def)

lemma bf_get_inc_same [bf_simps]:
  "pos + len \<le> LENGTH('a) \<Longrightarrow> bf_get pos len (bf_inc pos len w) = take_bit len (bf_get pos len w + 1)"
  for w :: "'a::len word"
  by (simp add: bf_inc_def bf_simps)

lemma bf_get_inc_other [bf_simps]:
  "pos' + len' \<le> pos \<or> pos + len \<le> pos' \<Longrightarrow>
   bf_get pos' len' (bf_inc pos len w) = bf_get pos' len' w"
  by (simp add: bf_inc_def bf_simps)

section \<open>Words\<close>

text \<open>Masks read as arithmetic on the unsigned value: \<^verbatim>\<open>w & (2^n - 1)\<close> is
  \<open>w mod 2^n\<close>, and a mask of \<open>n\<close> ones shifted left by \<open>k\<close> selects the digits
  \<open>k .. k + n - 1\<close>.\<close>

lemma unat_and_mask: "unat (w AND mask n) = unat w mod 2 ^ n"
  by (simp only: unsigned_take_bit_eq take_bit_nat_def flip: take_bit_eq_mask)

lemma unat_and_mask_less: "unat (w AND mask n) < 2 ^ n"
  by (simp add: unat_and_mask)

lemma and_shifted_mask:
  "w AND push_bit k (mask n) = push_bit k (take_bit n (drop_bit k w))" for w :: "'a::len word"
  by (rule bit_word_eqI) (auto simp add: bit_simps)

lemma unat_and_shifted_mask:
  fixes w :: "'a::len word"
  assumes "k + n \<le> LENGTH('a)"
  shows "unat (w AND push_bit k (mask n)) = (unat w div 2 ^ k) mod 2 ^ n * 2 ^ k"
proof -
  let ?x = "take_bit n (drop_bit k w)"
  have x: "unat ?x = (unat w div 2 ^ k) mod 2 ^ n"
    by (simp only: unsigned_take_bit_eq unat_drop_bit_eq take_bit_nat_def drop_bit_nat_def)
  have "unat ?x * 2 ^ k < 2 ^ n * 2 ^ k"
    unfolding x by simp
  also have "\<dots> \<le> 2 ^ LENGTH('a)"
    using assms by (simp flip: power_add add: ac_simps)
  finally have "unat (push_bit k ?x) = unat ?x * 2 ^ k"
    by (simp only: unsigned_push_bit_eq push_bit_nat_def take_bit_nat_eq_self)
  then show ?thesis
    by (simp only: and_shifted_mask x)
qed

lemma unat_and_31_less [simp]: "unat (w AND 0x1F) < 32"
  using unat_and_mask_less [of w 5] by (simp add: mask_numeral)

lemma unat_and_3_less [simp]: "unat (w AND 3) < 4"
  using unat_and_mask_less [of w 2] by (simp add: mask_numeral)

lemma unat_and_7_less [simp]: "unat (w AND 7) < 8"
  using unat_and_mask_less [of w 3] by (simp add: mask_numeral)

lemma numeral_masks [mask_eqs]:
  "(3 :: 'a::len word) = mask 2" "(7 :: 'a word) = mask 3" "(0x0F :: 'a word) = mask 4"
  "(0x1F :: 'a word) = mask 5" "(0x3F :: 'a word) = mask 6" "(0xFF :: 'a word) = mask 8"
  "(0x3FF :: 'a word) = mask 10" "(0xFFF :: 'a word) = mask 12" "(0x3FFF :: 'a word) = mask 14"
  by (simp_all add: mask_numeral)

lemma numeral_0x30 [mask_eqs]: "(0x30 :: 'a::len word) = push_bit 4 (mask 2)"
  by (simp add: mask_numeral)

text \<open>Widening a word and narrowing it again, and reading a widened word.\<close>

lemma ucast_up_down_id [simp]:
  "LENGTH('a) \<le> LENGTH('b) \<Longrightarrow> ucast (ucast w :: 'b::len word) = w"
  for w :: "'a::len word"
  by (simp add: ucast_up_ucast_id is_up)

lemma take_bit_ucast_small [simp]:
  "LENGTH('a) \<le> n \<Longrightarrow> take_bit n (ucast w :: 'b::len word) = ucast w"
  for w :: "'a::len word"
  by (rule bit_word_eqI) (auto simp add: bit_simps dest: bit_imp_le_length)

lemma unat_ucast_up [simp]:
  "LENGTH('a) \<le> LENGTH('b) \<Longrightarrow> unat (ucast w :: 'b::len word) = unat w"
  for w :: "'a::len word"
  by (simp add: is_up nat_int_comparison(1) uint_up_ucast)

text \<open>The successor inside a field of \<open>n\<close> bits, and the two values of a one-bit field.\<close>

lemma unat_take_bit_Suc:
  fixes x :: u32
  assumes "n \<le> 32"
  shows "unat (take_bit n (x + 1)) = (unat x + 1) mod 2 ^ n"
proof -
  have "(2::nat) ^ n dvd 2 ^ 32"
    using assms by (rule le_imp_power_dvd)
  then have "((unat x + 1) mod 2 ^ 32) mod 2 ^ n = (unat x + 1) mod 2 ^ n"
    by (rule mod_mod_cancel)
  then show ?thesis
    by (simp add: unsigned_take_bit_eq take_bit_nat_def unat_word_ariths)
qed

lemma one_bit_cases: "unat (x :: u32) < 2 \<Longrightarrow> x = 0 \<or> x = 1"
  by (metis One_nat_def less_2_cases unsigned_1 unsigned_eq_0_iff word_eq_iff_unsigned)

text \<open>A 16-bit address made of two bytes, and the addresses below the palette.\<close>

lemma addr_unat:
  fixes h lo :: byte
  shows "unat (push_bit 8 (ucast h) OR ucast lo :: u32) = unat h * 256 + unat lo"
proof -
  have h: "unat h < 256" and lo: "unat lo < 256"
    using unsigned_less [of h, where ?'a = nat] unsigned_less [of lo, where ?'a = nat] by simp_all
  have "push_bit 8 (ucast h) OR ucast lo = (push_bit 8 (ucast h) + ucast lo :: u32)"
    by (rule disjunctive_add [symmetric]) (auto simp add: bit_simps dest: bit_imp_le_length)
  moreover have "unat (push_bit 8 (ucast h) :: u32) = unat h * 256"
    using h by (simp add: push_bit_eq_mult unat_word_ariths)
  ultimately show ?thesis
    using h lo by (simp add: unat_word_ariths)
qed

lemma not_palette: "unat (x :: u32) < 0x3F00 \<Longrightarrow> x AND 0x3F00 \<noteq> 0x3F00"
  using word_and_le2 [of x "0x3F00"] by (auto simp add: word_le_nat_alt)

text \<open>Bits of a byte, and of a doubled word (the simplifier turns a shift by one into a
  multiplication by two).\<close>

lemma byte_high_bits [simp]: "8 \<le> n \<Longrightarrow> \<not> bit (w :: byte) n"
  by (auto dest: bit_imp_le_length)

lemma bit_word_times_2 [bit_simps]:
  "bit (w * 2) n \<longleftrightarrow> n \<noteq> 0 \<and> n < LENGTH('a) \<and> bit w (n - 1)" for w :: "'a::len word"
  using bit_double_iff [of w n] by (auto simp add: ac_simps bit_simps)

section \<open>Bounded quantifiers\<close>

lemma all_less_8:
  "(\<forall>k<8. P k) \<longleftrightarrow> P 0 \<and> P 1 \<and> P 2 \<and> P 3 \<and> P 4 \<and> P 5 \<and> P 6 \<and> P (7::nat)"
proof -
  have "{..<8::nat} = {0, 1, 2, 3, 4, 5, 6, 7}"
    by auto
  then have "(\<forall>k<8. P k) \<longleftrightarrow> (\<forall>k \<in> {0, 1, 2, 3, 4, 5, 6, 7}. P k)"
    by (metis lessThan_iff)
  then show ?thesis
    by simp
qed

section \<open>Iterated steps\<close>

text \<open>An invariant of one step is an invariant of any number of steps.\<close>

lemma funpow_invariant:
  assumes "\<And>s. P s \<Longrightarrow> P (f s)" and "P s"
  shows "P ((f ^^ n) s)"
  using assms(2) by (induction n) (auto intro: assms(1))

lemma funpow_frame:
  assumes "\<And>s. g (f s) = g s"
  shows "g ((f ^^ n) s) = g s"
  by (induction n) (auto simp add: assms)

end
