(* ===== verification/PPU_Registers.thy ===== *)
theory PPU_Registers
  imports PPU_Prelude
begin

text \<open>
  The CPU-visible register bank \<^verbatim>\<open>reg\<close> and the two address latches \<^verbatim>\<open>scroll\<close> and
  \<^verbatim>\<open>vaddr\<close>. Their declarations are in the emulator's header, which is outside
  \<^verbatim>\<open>src/\<close>; the layouts below follow sections 3 and 9 of the specification: a register
  word of four bytes (system control, display control, status, OAM address, in port order)
  with the named flags laid over them, and a latch made of fine X (3 bits) below a 15-bit
  address that is viewed as coarse X (5), coarse Y (5), nametable H and V (1 + 1) and
  fine Y (3), or as a low byte and a high part.
\<close>

section \<open>The register bank\<close>

datatype reg_field =
    sysctrl | dispctrl | status | OAMaddr
  | BaseNTA | Inc | SPaddr | BGaddr | SPsize | SlaveFlag | NMIenabled
  | Grayscale | ShowBG8 | ShowSP8 | ShowBG | ShowSP | ShowBGSP | EmpRGB
  | SPoverflow | SP0hit | InVBlank
  | OAMdata | OAMindex

text \<open>Position of the lowest bit and width of every field of the 32-bit register word.\<close>

fun reg_pos :: "reg_field \<Rightarrow> nat \<times> nat" where
  "reg_pos sysctrl = (0, 8)"
| "reg_pos dispctrl = (8, 8)"
| "reg_pos status = (16, 8)"
| "reg_pos OAMaddr = (24, 8)"
| "reg_pos BaseNTA = (0, 2)"
| "reg_pos Inc = (2, 1)"
| "reg_pos SPaddr = (3, 1)"
| "reg_pos BGaddr = (4, 1)"
| "reg_pos SPsize = (5, 1)"
| "reg_pos SlaveFlag = (6, 1)"
| "reg_pos NMIenabled = (7, 1)"
| "reg_pos Grayscale = (8, 1)"
| "reg_pos ShowBG8 = (9, 1)"
| "reg_pos ShowSP8 = (10, 1)"
| "reg_pos ShowBG = (11, 1)"
| "reg_pos ShowSP = (12, 1)"
| "reg_pos ShowBGSP = (11, 2)"
| "reg_pos EmpRGB = (13, 3)"
| "reg_pos SPoverflow = (21, 1)"
| "reg_pos SP0hit = (22, 1)"
| "reg_pos InVBlank = (23, 1)"
| "reg_pos OAMdata = (24, 2)"
| "reg_pos OAMindex = (26, 6)"

definition reg_get :: "reg_field \<Rightarrow> u32 \<Rightarrow> u32" where
  [reg_defs]: "reg_get f r = bf_get (fst (reg_pos f)) (snd (reg_pos f)) r"

definition reg_set :: "reg_field \<Rightarrow> u32 \<Rightarrow> u32 \<Rightarrow> u32" where
  [reg_defs]: "reg_set f v r = bf_set (fst (reg_pos f)) (snd (reg_pos f)) v r"

section \<open>The address latches\<close>

type_synonym latch = "18 word"

datatype latch_field =
    raw | xscroll | xfine | xcoarse | ycoarse | basenta | basenta_h | basenta_v | yfine
  | vaddrhi | vaddrlo

fun latch_pos :: "latch_field \<Rightarrow> nat \<times> nat" where
  "latch_pos raw = (3, 15)"
| "latch_pos xscroll = (0, 8)"
| "latch_pos xfine = (0, 3)"
| "latch_pos xcoarse = (3, 5)"
| "latch_pos ycoarse = (8, 5)"
| "latch_pos basenta = (13, 2)"
| "latch_pos basenta_h = (13, 1)"
| "latch_pos basenta_v = (14, 1)"
| "latch_pos yfine = (15, 3)"
| "latch_pos vaddrhi = (11, 7)"
| "latch_pos vaddrlo = (3, 8)"

definition latch_get :: "latch_field \<Rightarrow> latch \<Rightarrow> u32" where
  [reg_defs]: "latch_get f l = ucast (bf_get (fst (latch_pos f)) (snd (latch_pos f)) l)"

definition latch_set :: "latch_field \<Rightarrow> u32 \<Rightarrow> latch \<Rightarrow> latch" where
  [reg_defs]: "latch_set f v l = bf_set (fst (latch_pos f)) (snd (latch_pos f)) (ucast v) l"

definition latch_inc :: "latch_field \<Rightarrow> latch \<Rightarrow> latch" where
  [reg_defs]: "latch_inc f l = latch_set f (latch_get f l + 1) l"

section \<open>Layout\<close>

lemma reg_pos_fits: "fst (reg_pos f) + snd (reg_pos f) \<le> 32"
  by (cases f) simp_all

lemma latch_pos_fits: "fst (latch_pos f) + snd (latch_pos f) \<le> 18"
  by (cases f) simp_all

text \<open>Reading a field after an assignment: the same field returns the value truncated to
  the field; a field inside the assigned one returns its part of the value; a field apart
  from the assigned one is unchanged. For two named fields the side conditions are
  arithmetic on numerals, so the simplifier applies the right law by itself.\<close>

lemma reg_get_set_same [simp]: "reg_get f (reg_set f v r) = take_bit (snd (reg_pos f)) v"
  using reg_pos_fits [of f] by (simp add: reg_defs bf_simps)

lemma reg_get_set_other [simp]:
  "fst (reg_pos f) + snd (reg_pos f) \<le> fst (reg_pos g) \<or>
   fst (reg_pos g) + snd (reg_pos g) \<le> fst (reg_pos f) \<Longrightarrow>
   reg_get f (reg_set g v r) = reg_get f r"
  by (auto simp add: reg_defs bf_simps)

lemma reg_get_set_sub [simp]:
  "fst (reg_pos g) \<le> fst (reg_pos f) \<Longrightarrow>
   fst (reg_pos f) + snd (reg_pos f) \<le> fst (reg_pos g) + snd (reg_pos g) \<Longrightarrow>
   reg_get f (reg_set g v r) = bf_get (fst (reg_pos f) - fst (reg_pos g)) (snd (reg_pos f)) v"
  using reg_pos_fits [of g] by (simp add: reg_defs bf_simps)

lemma reg_set_get_id [simp]: "reg_set f (reg_get f r) r = r"
  by (simp add: reg_defs bf_simps)

lemma take_bit_reg_get [simp]: "take_bit (snd (reg_pos f)) (reg_get f r) = reg_get f r"
  by (simp add: reg_defs bf_get_def)

lemma unat_reg_get_less: "unat (reg_get f r) < 2 ^ snd (reg_pos f)"
  by (simp add: reg_defs unat_bf_get_less)

lemma latch_get_set_same [simp]:
  "latch_get f (latch_set f v l) = take_bit (snd (latch_pos f)) v"
proof (rule bit_word_eqI)
  fix n assume "n < LENGTH(32)"
  with latch_pos_fits [of f]
  show "bit (latch_get f (latch_set f v l)) n = bit (take_bit (snd (latch_pos f)) v) n"
    by (auto simp add: reg_defs bit_simps)
qed

lemma latch_get_set_other [simp]:
  "fst (latch_pos f) + snd (latch_pos f) \<le> fst (latch_pos g) \<or>
   fst (latch_pos g) + snd (latch_pos g) \<le> fst (latch_pos f) \<Longrightarrow>
   latch_get f (latch_set g v l) = latch_get f l"
  by (auto simp add: reg_defs bf_simps)

lemma latch_get_set_sub [simp]:
  assumes "fst (latch_pos g) \<le> fst (latch_pos f)"
    and "fst (latch_pos f) + snd (latch_pos f) \<le> fst (latch_pos g) + snd (latch_pos g)"
  shows "latch_get f (latch_set g v l)
    = bf_get (fst (latch_pos f) - fst (latch_pos g)) (snd (latch_pos f)) v"
proof (rule bit_word_eqI)
  fix n assume "n < LENGTH(32)"
  with assms latch_pos_fits [of g]
  show "bit (latch_get f (latch_set g v l)) n
    = bit (bf_get (fst (latch_pos f) - fst (latch_pos g)) (snd (latch_pos f)) v) n"
    by (auto simp add: reg_defs bit_simps ac_simps)
qed

lemma latch_set_get_id [simp]: "latch_set f (latch_get f l) l = l"
  by (simp add: reg_defs bf_simps)

lemma take_bit_latch_get [simp]:
  "take_bit (snd (latch_pos f)) (latch_get f l) = latch_get f l"
  by (rule bit_word_eqI) (auto simp add: reg_defs bit_simps)

lemma unat_latch_get_less: "unat (latch_get f l) < 2 ^ snd (latch_pos f)"
  by (simp add: reg_defs unat_bf_get_less)

text \<open>The address part of a latch is its high part above its low byte.\<close>

lemma latch_raw_hi_lo:
  "latch_get raw l = push_bit 8 (latch_get vaddrhi l) OR latch_get vaddrlo l"
  by (rule bit_word_eqI) (auto simp add: reg_defs bit_simps ac_simps)

lemma latch_raw_after_hi_lo:
  "latch_get raw (latch_set vaddrlo lo (latch_set vaddrhi hi l))
     = push_bit 8 (take_bit 7 hi) OR take_bit 8 lo"
  by (simp add: latch_raw_hi_lo)

text \<open>Assigning the whole address part of a latch from another latch copies every field
  of the address and keeps fine X: \<^verbatim>\<open>vaddr.raw = scroll.raw\<close>.\<close>

lemma latch_set_raw_get:
  "fst (latch_pos f) \<ge> 3 \<Longrightarrow> latch_get f (latch_set raw (latch_get raw l') l) = latch_get f l'"
proof (rule bit_word_eqI)
  fix n assume "3 \<le> fst (latch_pos f)" "n < LENGTH(32)"
  with latch_pos_fits [of f]
  show "bit (latch_get f (latch_set raw (latch_get raw l') l)) n = bit (latch_get f l') n"
    by (auto simp add: reg_defs bit_simps ac_simps)
qed

text \<open>The pre-increment of a field, \<^verbatim>\<open>++vaddr.xcoarse\<close>: a counter modulo the size of
  the field that leaves the other fields alone; and \<^verbatim>\<open>1 - bit\<close> on a one-bit field.\<close>

lemma unat_latch_inc:
  "unat (latch_get f (latch_inc f l)) = (unat (latch_get f l) + 1) mod 2 ^ snd (latch_pos f)"
  using latch_pos_fits [of f] by (simp add: latch_inc_def unat_take_bit_Suc)

lemma latch_get_inc_other [simp]:
  "fst (latch_pos f) + snd (latch_pos f) \<le> fst (latch_pos g) \<or>
   fst (latch_pos g) + snd (latch_pos g) \<le> fst (latch_pos f) \<Longrightarrow>
   latch_get f (latch_inc g l) = latch_get f l"
  by (simp add: latch_inc_def)

lemma latch_inc_zero_iff:
  "latch_get f (latch_inc f l) = 0 \<longleftrightarrow> unat (latch_get f l) = 2 ^ snd (latch_pos f) - 1"
proof -
  have "latch_get f (latch_inc f l) = 0 \<longleftrightarrow> unat (latch_get f (latch_inc f l)) = 0"
    by (simp add: unsigned_eq_0_iff)
  also have "\<dots> \<longleftrightarrow> unat (latch_get f l) = 2 ^ snd (latch_pos f) - 1"
    using unat_latch_get_less [of f l]
    by (auto simp add: unat_latch_inc mod_Suc)
  finally show ?thesis .
qed

lemma latch_bit_cases:
  "snd (latch_pos f) = 1 \<Longrightarrow> latch_get f l = 0 \<or> latch_get f l = 1"
  using unat_latch_get_less [of f l] by (simp add: one_bit_cases)

lemma latch_flip [simp]:
  "snd (latch_pos f) = 1 \<Longrightarrow> (1 - latch_get f l) mod 2 = 1 - latch_get f l"
  using latch_bit_cases [of f l] by auto

end
