(* ===== verification/PPU_Memory.thy ===== *)
theory PPU_Memory
  imports PPU_Prelude
begin

text \<open>
  The PPU's view of video memory: \<^verbatim>\<open>Ppu::mmap\<close> turns an address into a reference to one
  byte, either an entry of the PPU's own 32-byte palette or a byte of cartridge memory
  reached through one of the mapper's pointer tables (\<^verbatim>\<open>chr_banks[8]\<close> for the pattern
  tables, \<^verbatim>\<open>Nta[4]\<close> for the nametables). The cartridge (\<^verbatim>\<open>gamepak\<close>) is declared outside
  \<^verbatim>\<open>src/\<close>; it is modelled as an explicit store: host memory is a function from host
  addresses to bytes and the tables hold base addresses into it, so that two table entries
  that point to the same bank (nametable mirroring) alias in the model as they do in the
  program.

  \<open>region_of\<close> is the specification of the address space (section 3 of the specification)
  as arithmetic on the address; \<open>mmap_refines\<close> shows that the bit operations of \<^verbatim>\<open>mmap\<close>
  implement it.
\<close>

section \<open>Cartridge memory\<close>

record gamepak =
  chr_banks :: "nat list"
  Nta :: "nat list"
  NRAM :: nat
  host_mem :: "nat \<Rightarrow> byte"

text \<open>\<^verbatim>\<open>memset(p, v, n)\<close> on host memory.\<close>

definition mem_fill :: "nat \<Rightarrow> byte \<Rightarrow> nat \<Rightarrow> (nat \<Rightarrow> byte) \<Rightarrow> (nat \<Rightarrow> byte)" where
  "mem_fill p v n m = (\<lambda>a. if p \<le> a \<and> a < p + n then v else m a)"

section \<open>Address decoding\<close>

datatype vref = PaletteRef nat | HostRef nat

definition mmap :: "gamepak \<Rightarrow> u32 \<Rightarrow> vref" where
  "mmap g i0 =
     (let i = i0 AND 0x3FFF in
      if 0x3F00 \<le> i then PaletteRef (unat ((if i mod 4 = 0 then i AND 0x0F else i) AND 0x1F))
      else if i < 0x2000 then HostRef (chr_banks g ! unat (drop_bit 10 i) + unat (i AND 0x3FF))
      else HostRef (Nta g ! unat (drop_bit 10 i AND 3) + unat (i AND 0x3FF)))"

text \<open>Reading and assigning through the reference that \<^verbatim>\<open>mmap\<close> returns.\<close>

fun ref_read :: "byte list \<Rightarrow> gamepak \<Rightarrow> vref \<Rightarrow> byte" where
  "ref_read pal g (PaletteRef k) = pal ! k"
| "ref_read pal g (HostRef a) = host_mem g a"

fun ref_write :: "vref \<Rightarrow> byte \<Rightarrow> byte list \<times> gamepak \<Rightarrow> byte list \<times> gamepak" where
  "ref_write (PaletteRef k) v (pal, g) = (pal[k := v], g)"
| "ref_write (HostRef a) v (pal, g) = (pal, g\<lparr>host_mem := (host_mem g)(a := v)\<rparr>)"

section \<open>The address space as a specification\<close>

datatype region = Palette nat | Pattern nat nat | Nametable nat nat

definition region_of :: "nat \<Rightarrow> region" where
  "region_of a =
     (let n = a mod 16384 in
      if 16128 \<le> n then Palette (if n mod 4 = 0 then n mod 16 else n mod 32)
      else if n < 8192 then Pattern (n div 1024) (n mod 1024)
      else Nametable (n div 1024 mod 4) (n mod 1024))"

fun locate :: "gamepak \<Rightarrow> region \<Rightarrow> vref" where
  "locate g (Palette k) = PaletteRef k"
| "locate g (Pattern b off) = HostRef (chr_banks g ! b + off)"
| "locate g (Nametable t off) = HostRef (Nta g ! t + off)"

definition gamepak_ok :: "gamepak \<Rightarrow> bool" where
  "gamepak_ok g \<longleftrightarrow> length (chr_banks g) = 8 \<and> length (Nta g) = 4"

definition region_ok :: "region \<Rightarrow> bool" where
  "region_ok r = (case r of Palette k \<Rightarrow> k < 32 | Pattern b off \<Rightarrow> b < 8 \<and> off < 1024
                  | Nametable t off \<Rightarrow> t < 4 \<and> off < 1024)"

section \<open>Decoding implements the specification\<close>

lemma unat_and_3FFF: "unat (w AND 0x3FFF) = unat w mod 16384"
  using unat_and_mask [of w 14] by (simp add: mask_numeral)

lemma unat_and_3FF: "unat (w AND 0x3FF) = unat w mod 1024"
  using unat_and_mask [of w 10] by (simp add: mask_numeral)

lemma unat_and_1F: "unat (w AND 0x1F) = unat w mod 32"
  using unat_and_mask [of w 5] by (simp add: mask_numeral)

lemma unat_and_0F: "unat (w AND 0x0F) = unat w mod 16"
  using unat_and_mask [of w 4] by (simp add: mask_numeral)

lemma unat_and_3: "unat (w AND 3) = unat w mod 4"
  using unat_and_mask [of w 2] by (simp add: mask_numeral)

lemmas unat_masks = unat_and_3FFF unat_and_3FF unat_and_1F unat_and_0F unat_and_3

lemma mmap_eq_locate: "mmap g i = locate g (region_of (unat i))"
proof -
  define j where "j = i AND 0x3FFF"
  define n where "n = unat i mod 16384"
  have j: "unat j = n"
    by (simp add: j_def n_def unat_masks)
  have cmp: "0x3F00 \<le> j \<longleftrightarrow> 16128 \<le> n" "j < 0x2000 \<longleftrightarrow> n < 8192"
    by (simp_all add: word_le_nat_alt word_less_nat_alt j)
  have m4: "j mod 4 = 0 \<longleftrightarrow> n mod 4 = 0"
    by (simp add: word_eq_iff_unsigned [where ?'a = nat] unat_mod_distrib j)
  have idx: "unat ((j AND 0x0F) AND 0x1F) = n mod 16" "unat (j AND 0x1F) = n mod 32"
    "unat (j AND 0x3FF) = n mod 1024"
    by (simp_all add: unat_masks j mod_mod_cancel)
  have bank: "unat (drop_bit 10 j) = n div 1024"
    "unat (drop_bit 10 j AND 3) = n div 1024 mod 4"
    by (simp_all only: unat_masks unat_drop_bit_eq drop_bit_nat_def j) simp_all
  show ?thesis
    unfolding mmap_def region_of_def Let_def j_def [symmetric] n_def [symmetric]
    by (simp add: cmp m4 idx bank)
qed

lemma region_of_in_range: "region_ok (region_of a)"
proof -
  have "n < 8192 \<Longrightarrow> n div 1024 < 8" and "n mod 16 < 32" for n :: nat
    by arith+
  then show ?thesis
    by (simp add: region_of_def region_ok_def Let_def)
qed

lemma mmap_palette_index: "mmap g i = PaletteRef k \<Longrightarrow> k < 32"
  using region_of_in_range [of "unat i"]
  by (cases "region_of (unat i)") (auto simp add: mmap_eq_locate region_ok_def)

text \<open>\<^bold>\<open>C3.\<close> Address decoding implements the specification of the address space: for
  every 32-bit argument, the reference that \<^verbatim>\<open>mmap\<close> computes with masks and shifts is
  the location of the region that the arithmetic specification assigns to the address
  (palette entry with the mirrors folded, pattern bank and offset, or nametable and
  offset), and that region lies inside its table: a palette index is below 32, a pattern
  bank below 8, a nametable below 4 and an offset below 1024.\<close>

theorem mmap_refines:
  "mmap g i = locate g (region_of (unat i)) \<and> region_ok (region_of (unat i))"
  by (simp add: mmap_eq_locate region_of_in_range)

section \<open>Mirrors\<close>

text \<open>The address space repeats every \<^verbatim>\<open>0x4000\<close>.\<close>

lemma region_of_mirror: "region_of (a + 16384) = region_of a"
  by (simp add: region_of_def)

text \<open>The region of a palette address, and when two palette addresses get the same index.\<close>

lemma region_of_palette:
  "16128 \<le> a mod 16384 \<Longrightarrow>
   region_of a = Palette (if a mod 4 = 0 then a mod 16 else a mod 32)"
  by (simp add: region_of_def Let_def mod_mod_cancel)

lemma palette_index_eq_iff:
  fixes a b :: nat
  shows "(if a mod 4 = 0 then a mod 16 else a mod 32) = (if b mod 4 = 0 then b mod 16 else b mod 32)
    \<longleftrightarrow> a mod 32 = b mod 32 \<or> a mod 4 = 0 \<and> b mod 4 = 0 \<and> a mod 16 = b mod 16"
proof -
  have m: "n mod 16 mod 4 = n mod 4" "n mod 32 mod 4 = n mod 4" "n mod 32 mod 16 = n mod 16"
    for n :: nat
    by (simp_all add: mod_mod_cancel)
  have "a mod 16 \<noteq> b mod 32" "a mod 32 \<noteq> b mod 32" if "a mod 4 = 0" "b mod 4 \<noteq> 0"
    for a b :: nat
    using that by (metis m(1,2))+
  moreover have "a mod 32 = b mod 32 \<Longrightarrow> a mod 16 = b mod 16"
    by (metis m(3))
  ultimately show ?thesis
    by (cases "a mod 4 = 0"; cases "b mod 4 = 0") (simp_all, metis+)
qed

text \<open>\<^bold>\<open>C32.\<close> Which addresses of the palette range are the same cell: two addresses
  whose low five bits agree (the palette repeats every 32 bytes up to \<^verbatim>\<open>0x3FFF\<close>), and two
  multiples of four whose low four bits agree (\<^verbatim>\<open>0x3F10\<close> is \<^verbatim>\<open>0x3F00\<close>, \<^verbatim>\<open>0x3F14\<close> is
  \<^verbatim>\<open>0x3F04\<close>, ...), and no others. In particular \<^verbatim>\<open>0x3F04\<close>, \<^verbatim>\<open>0x3F08\<close> and \<^verbatim>\<open>0x3F0C\<close>
  are not the cell of \<^verbatim>\<open>0x3F00\<close>.\<close>

theorem palette_aliasing:
  assumes "0x3F00 \<le> i AND 0x3FFF" and "0x3F00 \<le> j AND 0x3FFF"
  shows "mmap g i = mmap g j \<longleftrightarrow>
    unat i mod 32 = unat j mod 32
    \<or> unat i mod 4 = 0 \<and> unat j mod 4 = 0 \<and> unat i mod 16 = unat j mod 16"
proof -
  have "16128 \<le> unat i mod 16384" "16128 \<le> unat j mod 16384"
    using assms by (simp_all add: word_le_nat_alt unat_masks)
  then have "mmap g i = mmap g j \<longleftrightarrow>
    (if unat i mod 4 = 0 then unat i mod 16 else unat i mod 32)
      = (if unat j mod 4 = 0 then unat j mod 16 else unat j mod 32)"
    by (simp add: mmap_eq_locate region_of_palette)
  then show ?thesis
    by (simp only: palette_index_eq_iff)
qed

theorem palette_aliasing_witness:
  "(0x3F00 :: u32) \<le> 0x3F10 AND 0x3FFF \<and> (0x3F00 :: u32) \<le> 0x3F04 AND 0x3FFF
   \<and> mmap \<lparr>chr_banks = [], Nta = [], NRAM = 0, host_mem = (\<lambda>_. 0)\<rparr> 0x3F10
       = mmap \<lparr>chr_banks = [], Nta = [], NRAM = 0, host_mem = (\<lambda>_. 0)\<rparr> 0x3F00
   \<and> mmap \<lparr>chr_banks = [], Nta = [], NRAM = 0, host_mem = (\<lambda>_. 0)\<rparr> 0x3F04
       \<noteq> mmap \<lparr>chr_banks = [], Nta = [], NRAM = 0, host_mem = (\<lambda>_. 0)\<rparr> 0x3F00"
  using palette_aliasing [of "0x3F10" "0x3F00"
      "\<lparr>chr_banks = [], Nta = [], NRAM = 0, host_mem = (\<lambda>_. 0)\<rparr>"]
    palette_aliasing [of "0x3F04" "0x3F00"
      "\<lparr>chr_banks = [], Nta = [], NRAM = 0, host_mem = (\<lambda>_. 0)\<rparr>"]
  by simp

section \<open>Reading after writing\<close>

lemma ref_read_write_same:
  "(case r of PaletteRef k \<Rightarrow> k < length pal | HostRef a \<Rightarrow> True) \<Longrightarrow>
   ref_write r v (pal, g) = (pal', g') \<Longrightarrow> ref_read pal' g' r = v"
  by (cases r) auto

lemma ref_read_write_other:
  "r' \<noteq> r \<Longrightarrow> ref_write r v (pal, g) = (pal', g') \<Longrightarrow> ref_read pal' g' r' = ref_read pal g r'"
  by (cases r; cases r') auto

lemma ref_write_tables:
  "ref_write r v (pal, g) = (pal', g') \<Longrightarrow>
   length pal' = length pal \<and> chr_banks g' = chr_banks g \<and> Nta g' = Nta g \<and> NRAM g' = NRAM g"
  by (cases r) auto

lemma mmap_tables_cong:
  "chr_banks g' = chr_banks g \<Longrightarrow> Nta g' = Nta g \<Longrightarrow> mmap g' i = mmap g i"
  by (simp add: mmap_def Let_def)

end
