(* ===== verification/PPU_State.thy ===== *)
theory PPU_State
  imports PPU_Registers PPU_Memory
begin

text \<open>
  The state of the PPU (\<^verbatim>\<open>class Ppu\<close>) as one record, the part of the surrounding machine
  that the PPU reads and writes through its back pointer \<^verbatim>\<open>nes_\<close>, and the three
  lifecycle operations \<^verbatim>\<open>Initialize\<close>, \<^verbatim>\<open>Power\<close> and \<^verbatim>\<open>Reset\<close>.

  Names follow the source. A trailing underscore is dropped (\<open>open_bus\<close>, \<open>offset_toggle\<close>,
  \<open>mode\<close>, \<open>nes\<close>), the column counter \<^verbatim>\<open>x\<close> is \<open>x_col\<close> and the fields of a sprite entry
  carry the prefix \<open>spr_\<close>, because a record field is a constant and single letters are
  wanted as variables.

  Counters that the source declares as machine integers and that stay far below their
  width (\<open>x_col\<close>, \<open>scanline_end\<close>, \<open>cycle_counter\<close>, the three sprite positions, the decay
  timer) are natural numbers: every increment of one of them is guarded or followed by a
  reset, and the invariants bound them. \<open>scanline\<close> and \<open>VBlankState\<close>, which take negative
  values, are integers. Everything that is shifted, masked or truncated is a word of the
  width the arithmetic needs, and so is the beat counter \<open>cycles\<close>, which is incremented
  without a bound and therefore wraps: it is taken as a 32-bit unsigned counter (its
  declaration is not under \<^verbatim>\<open>src/\<close>; the theorems about it hold of any width).

  The callbacks \<^verbatim>\<open>on_render\<close>, \<^verbatim>\<open>on_vertical_blank\<close> and \<^verbatim>\<open>mapper->PpuTick\<close> belong to
  collaborators outside \<^verbatim>\<open>src/\<close>. The model records each call as an event appended to a
  trace, which is what the theorems about them speak of.
\<close>

section \<open>Data\<close>

record sprite =
  sprindex :: byte
  spr_y :: byte
  spr_index :: byte
  spr_attr :: byte
  spr_x :: byte
  pattern :: u16

datatype tv_mode = NTSC | PAL

datatype event = OnRender | OnVerticalBlank | MapperPpuTick

record nes =
  gamepak :: gamepak
  frame_buffer :: "nat \<Rightarrow> u32"
  cpu_nmi :: bool
  cpu_cycles :: nat
  events :: "event list"
  PutPixel :: "nat \<Rightarrow> int \<Rightarrow> u32 \<Rightarrow> nat \<Rightarrow> u32"

record ppu =
  nes :: nes
  mode :: tv_mode
  scanline :: int
  x_col :: nat
  scanline_end :: nat
  VBlankState :: int
  cycle_counter :: nat
  cycles :: u32
  read_buffer :: byte
  open_bus :: byte
  open_bus_decay_timer :: nat
  even_odd_toggle :: bool
  offset_toggle :: bool
  reg :: u32
  scroll :: latch
  vaddr :: latch
  palette :: "byte list"
  OAM :: "byte \<Rightarrow> byte"
  OAM2 :: "sprite list"
  OAM3 :: "sprite list"
  ioaddr :: u16
  pat_addr :: u32
  tilepat :: u16
  tileattr :: u16
  bg_shift_pat :: u32
  bg_shift_attr :: u32
  sprinpos :: nat
  sproutpos :: nat
  sprrenpos :: nat
  sprtmp :: byte

definition emit :: "event \<Rightarrow> ppu \<Rightarrow> ppu" where
  "emit e s = s\<lparr>nes := (nes s)\<lparr>events := events (nes s) @ [e]\<rparr>\<rparr>"

section \<open>Video memory through the state\<close>

definition mmap_read :: "ppu \<Rightarrow> u32 \<Rightarrow> byte" where
  "mmap_read s i = ref_read (palette s) (gamepak (nes s)) (mmap (gamepak (nes s)) i)"

definition mmap_write :: "u32 \<Rightarrow> byte \<Rightarrow> ppu \<Rightarrow> ppu" where
  "mmap_write i v s =
     (case ref_write (mmap (gamepak (nes s)) i) v (palette s, gamepak (nes s)) of
        (pal, g) \<Rightarrow> s\<lparr>palette := pal, nes := (nes s)\<lparr>gamepak := g\<rparr>\<rparr>)"

section \<open>Lifecycle\<close>

definition Initialize :: "nes \<Rightarrow> ppu \<Rightarrow> ppu" where
  "Initialize n s = s\<lparr>nes := n, scanline := 241, x_col := 0, scanline_end := 341,
     VBlankState := 0, cycle_counter := 0, read_buffer := 0, open_bus := 0,
     open_bus_decay_timer := 0, even_odd_toggle := False, offset_toggle := False, reg := 0\<rparr>"

definition power_palette :: "byte list" where
  "power_palette =
     [0x09,0x01,0x00,0x01,0x00,0x02,0x02,0x0D,0x08,0x10,0x08,0x24,0x00,0x00,0x04,0x2C,
      0x09,0x01,0x34,0x03,0x00,0x04,0x00,0x14,0x08,0x3A,0x00,0x02,0x00,0x20,0x2C,0x08]"

definition fill_NRAM :: "byte \<Rightarrow> ppu \<Rightarrow> ppu" where
  "fill_NRAM v s = s\<lparr>nes := (nes s)\<lparr>gamepak := (gamepak (nes s))
     \<lparr>host_mem := mem_fill (NRAM (gamepak (nes s))) v 0x1000 (host_mem (gamepak (nes s)))\<rparr>\<rparr>\<rparr>"

definition Power :: "ppu \<Rightarrow> ppu" where
  "Power s =
     (let r = reg_set sysctrl 0 (reg s);
          r = reg_set dispctrl (reg_get dispctrl r AND 0x6) r;
          r = reg_set status (reg_get status r AND 0x1F) r;
          r = reg_set OAMaddr 0 r;
          v = latch_set raw 0 (vaddr s);
          v = latch_set vaddrlo 0 v;
          v = latch_set vaddrhi (latch_get vaddrlo v) v
      in (fill_NRAM 0xFF
            (s\<lparr>cycles := 0, reg := r, offset_toggle := False,
               scroll := latch_set raw 0 (scroll s), vaddr := v, read_buffer := 0\<rparr>))
           \<lparr>palette := power_palette\<rparr>)"

definition Reset :: "ppu \<Rightarrow> ppu" where
  "Reset s =
     (let r = reg_set sysctrl 0 (reg s);
          r = reg_set dispctrl (reg_get dispctrl r AND 0x6) r;
          r = reg_set status (reg_get status r AND 0x1F) r
      in fill_NRAM 0x00
           (s\<lparr>cycles := 0, reg := r, offset_toggle := False,
              scroll := latch_set raw 0 (scroll s), read_buffer := 0,
              palette := power_palette\<rparr>))"

section \<open>A concrete machine\<close>

text \<open>A cartridge with every table entry at host address 0 and a PPU with every field
  zero: the state at which the theorems with hypotheses are instantiated.\<close>

definition blank_sprite :: sprite where
  "blank_sprite = \<lparr>sprindex = 0, spr_y = 0, spr_index = 0, spr_attr = 0, spr_x = 0, pattern = 0\<rparr>"

definition blank_nes :: nes where
  "blank_nes = \<lparr>gamepak = \<lparr>chr_banks = replicate 8 0, Nta = replicate 4 0, NRAM = 0,
                               host_mem = (\<lambda>_. 0)\<rparr>,
     frame_buffer = (\<lambda>_. 0), cpu_nmi = False, cpu_cycles = 0, events = [],
     PutPixel = (\<lambda>_ _ c _. c)\<rparr>"

definition blank_ppu :: ppu where
  "blank_ppu = \<lparr>nes = blank_nes, mode = NTSC, scanline = 0, x_col = 0, scanline_end = 341,
     VBlankState = 0, cycle_counter = 0, cycles = 0, read_buffer = 0, open_bus = 0,
     open_bus_decay_timer = 0, even_odd_toggle = False, offset_toggle = False, reg = 0,
     scroll = 0, vaddr = 0, palette = power_palette, OAM = (\<lambda>_. 0),
     OAM2 = replicate 8 blank_sprite, OAM3 = replicate 8 blank_sprite, ioaddr = 0,
     pat_addr = 0, tilepat = 0, tileattr = 0, bg_shift_pat = 0, bg_shift_attr = 0,
     sprinpos = 0, sproutpos = 0, sprrenpos = 0, sprtmp = 0\<rparr>"

section \<open>Shape of the arrays\<close>

text \<open>The sizes that the source fixes in its declarations: \<^verbatim>\<open>palette[32]\<close>, \<^verbatim>\<open>OAM2[8]\<close>,
  \<^verbatim>\<open>OAM3[8]\<close>, and the two pointer tables of the cartridge.\<close>

definition arrays_ok :: "ppu \<Rightarrow> bool" where
  "arrays_ok s \<longleftrightarrow> length (palette s) = 32 \<and> length (OAM2 s) = 8 \<and> length (OAM3 s) = 8
     \<and> gamepak_ok (gamepak (nes s))"

lemma length_power_palette [simp]: "length power_palette = 32"
  by (simp add: power_palette_def)

lemma blank_ppu_arrays_ok [simp]: "arrays_ok blank_ppu"
  by (simp add: arrays_ok_def gamepak_ok_def blank_ppu_def blank_nes_def)

lemma blank_nes_sel [simp]:
  "events blank_nes = []" "cpu_nmi blank_nes = False" "cpu_cycles blank_nes = 0"
  "frame_buffer blank_nes = (\<lambda>_. 0)" "PutPixel blank_nes = (\<lambda>_ _ c _. c)"
  by (simp_all add: blank_nes_def)

lemma blank_ppu_sel [simp]:
  "mode blank_ppu = NTSC" "scanline blank_ppu = 0" "x_col blank_ppu = 0"
  "scanline_end blank_ppu = 341" "VBlankState blank_ppu = 0" "reg blank_ppu = 0"
  "open_bus blank_ppu = 0" "open_bus_decay_timer blank_ppu = 0" "cycles blank_ppu = 0"
  "sprinpos blank_ppu = 0" "sproutpos blank_ppu = 0" "sprrenpos blank_ppu = 0"
  "palette blank_ppu = power_palette" "nes blank_ppu = blank_nes"
  "even_odd_toggle blank_ppu = False" "offset_toggle blank_ppu = False"
  by (simp_all add: blank_ppu_def)

lemma emit_frame [ppu_frame, simp]:
  "mode (emit e s) = mode s" "scanline (emit e s) = scanline s" "x_col (emit e s) = x_col s"
  "scanline_end (emit e s) = scanline_end s" "VBlankState (emit e s) = VBlankState s"
  "reg (emit e s) = reg s" "scroll (emit e s) = scroll s" "vaddr (emit e s) = vaddr s"
  "palette (emit e s) = palette s" "OAM2 (emit e s) = OAM2 s" "OAM3 (emit e s) = OAM3 s"
  "gamepak (nes (emit e s)) = gamepak (nes s)" "events (nes (emit e s)) = events (nes s) @ [e]"
  "sprinpos (emit e s) = sprinpos s" "sproutpos (emit e s) = sproutpos s"
  "sprrenpos (emit e s) = sprrenpos s" "even_odd_toggle (emit e s) = even_odd_toggle s"
  "cycles (emit e s) = cycles s" "cycle_counter (emit e s) = cycle_counter s"
  "open_bus (emit e s) = open_bus s" "open_bus_decay_timer (emit e s) = open_bus_decay_timer s"
  "OAM (emit e s) = OAM s" "cpu_nmi (nes (emit e s)) = cpu_nmi (nes s)"
  "cpu_cycles (nes (emit e s)) = cpu_cycles (nes s)"
  "frame_buffer (nes (emit e s)) = frame_buffer (nes s)"
  by (simp_all add: emit_def)

lemma mmap_write_frame [ppu_frame, simp]:
  "mode (mmap_write i v s) = mode s" "scanline (mmap_write i v s) = scanline s"
  "x_col (mmap_write i v s) = x_col s" "scanline_end (mmap_write i v s) = scanline_end s"
  "VBlankState (mmap_write i v s) = VBlankState s" "reg (mmap_write i v s) = reg s"
  "scroll (mmap_write i v s) = scroll s" "vaddr (mmap_write i v s) = vaddr s"
  "OAM2 (mmap_write i v s) = OAM2 s" "OAM3 (mmap_write i v s) = OAM3 s"
  "offset_toggle (mmap_write i v s) = offset_toggle s"
  by (simp_all add: mmap_write_def split: prod.split)

lemma mmap_write_arrays_ok: "arrays_ok s \<Longrightarrow> arrays_ok (mmap_write i v s)"
  by (auto simp add: arrays_ok_def gamepak_ok_def mmap_write_def split: prod.split
      dest: ref_write_tables)

text \<open>Video memory behaves as a store indexed by references: a read after a write returns
  the written byte exactly when the two addresses decode to the same reference.\<close>

lemma mmap_read_after_write:
  assumes "arrays_ok s"
  shows "mmap_read (mmap_write a v s) b =
    (if mmap (gamepak (nes s)) b = mmap (gamepak (nes s)) a then v else mmap_read s b)"
proof -
  let ?g = "gamepak (nes s)"
  obtain pal' g' where w: "ref_write (mmap ?g a) v (palette s, ?g) = (pal', g')"
    by (cases "ref_write (mmap ?g a) v (palette s, ?g)")
  then have m: "mmap g' b = mmap ?g b"
    by (auto dest: ref_write_tables intro: mmap_tables_cong)
  have in_range: "case mmap ?g a of PaletteRef k \<Rightarrow> k < length (palette s) | HostRef h \<Rightarrow> True"
    using assms by (auto simp add: arrays_ok_def split: vref.split dest: mmap_palette_index)
  show ?thesis
    using ref_read_write_same [OF in_range w] ref_read_write_other [OF _ w, of "mmap ?g b"]
    by (simp add: mmap_read_def mmap_write_def w m)
qed

text \<open>\<^bold>\<open>C4.\<close> Video memory behaves as a store over the cells of the address-space
  specification: after a write through address \<open>a\<close>, a read through address \<open>b\<close> returns
  the written byte exactly when the regions of the two addresses are located at the same
  cell (the same address, a mirror of it, or another nametable that the mapper points at
  the same bank), and what it returned before otherwise.\<close>

theorem mmap_read_write:
  assumes "arrays_ok s"
  shows "mmap_read (mmap_write a v s) b =
    (if locate (gamepak (nes s)) (region_of (unat b)) = locate (gamepak (nes s)) (region_of (unat a))
     then v else mmap_read s b)"
  using assms by (simp add: mmap_read_after_write mmap_eq_locate)

theorem mmap_read_write_witness:
  "arrays_ok blank_ppu \<and> mmap_read (mmap_write 0x3F00 0x2A blank_ppu) 0x3F10 = 0x2A"
  using mmap_read_write [where s = blank_ppu and a = "0x3F00" and v = "0x2A" and b = "0x3F10"]
  by (simp add: arrays_ok_def gamepak_ok_def blank_ppu_def blank_nes_def mmap_eq_locate
      region_of_def)

lemma Power_arrays_ok: "arrays_ok s \<Longrightarrow> arrays_ok (Power s)"
  by (simp add: arrays_ok_def gamepak_ok_def Power_def fill_NRAM_def Let_def)

lemma Reset_arrays_ok: "arrays_ok s \<Longrightarrow> arrays_ok (Reset s)"
  by (simp add: arrays_ok_def gamepak_ok_def Reset_def fill_NRAM_def Let_def)

end
