(* ===== verification/PPU_Bus.thy ===== *)
theory PPU_Bus
  imports PPU_State
begin

text \<open>
  The register interface: \<^verbatim>\<open>Ppu::Read\<close> and \<^verbatim>\<open>Ppu::Write\<close>, which the CPU calls for
  the eight ports mirrored through \<^verbatim>\<open>$2000-$3FFF\<close>. Both decode the port from the low
  three bits of the address. \<open>Read\<close> returns the byte read and the new state.
\<close>

section \<open>Operations\<close>

definition RefreshOpenBus :: "byte \<Rightarrow> ppu \<Rightarrow> ppu" where
  "RefreshOpenBus v s = s\<lparr>open_bus_decay_timer := 77777, open_bus := v\<rparr>"

text \<open>\<^verbatim>\<open>vaddr.raw = vaddr.raw + (reg.Inc ? 32 : 1)\<close>\<close>

definition vaddr_advance :: "ppu \<Rightarrow> ppu" where
  "vaddr_advance s =
     s\<lparr>vaddr := latch_set raw (latch_get raw (vaddr s) + (if reg_get Inc (reg s) \<noteq> 0 then 32 else 1))
                   (vaddr s)\<rparr>"

definition read_status :: "ppu \<Rightarrow> byte \<times> ppu" where
  "read_status s =
     (let res = ucast (reg_get status (reg s)) OR (open_bus s AND 0x1F);
          s = s\<lparr>reg := reg_set InVBlank 0 (reg s), offset_toggle := False\<rparr>;
          s = (if VBlankState s \<noteq> - 5 then s\<lparr>VBlankState := 0\<rparr> else s)
      in (res, s))"

definition read_OAMdata :: "ppu \<Rightarrow> byte \<times> ppu" where
  "read_OAMdata s =
     (let res = OAM s (ucast (reg_get OAMaddr (reg s)))
                  AND (if reg_get OAMdata (reg s) = 2 then 0xE3 else 0xFF)
      in (res, RefreshOpenBus res s))"

definition read_data :: "ppu \<Rightarrow> byte \<times> ppu" where
  "read_data s =
     (let res = read_buffer s;
          t = mmap_read s (latch_get raw (vaddr s));
          (res, s) =
            (if latch_get raw (vaddr s) AND 0x3F00 = 0x3F00
             then ((open_bus s AND 0xC0) OR (t AND 0x3F),
                   s\<lparr>read_buffer := mmap_read s (latch_get raw (vaddr s) AND 0x2FFF)\<rparr>)
             else (res, s\<lparr>read_buffer := t\<rparr>))
      in (res, vaddr_advance (RefreshOpenBus res s)))"

definition Read :: "u16 \<Rightarrow> ppu \<Rightarrow> byte \<times> ppu" where
  "Read address s =
     (let port = address AND 0x7 in
      if port = 2 then read_status s
      else if port = 4 then read_OAMdata s
      else if port = 7 then read_data s
      else (open_bus s, s))"

definition write_sysctrl :: "byte \<Rightarrow> ppu \<Rightarrow> ppu" where
  "write_sysctrl data s =
     (let r = reg_set sysctrl (ucast data) (reg s)
      in s\<lparr>reg := r, scroll := latch_set basenta (reg_get BaseNTA r) (scroll s)\<rparr>)"

definition write_OAMdata :: "byte \<Rightarrow> ppu \<Rightarrow> ppu" where
  "write_OAMdata data s =
     (let a = reg_get OAMaddr (reg s)
      in s\<lparr>reg := reg_set OAMaddr (a + 1) (reg s), OAM := (OAM s)(ucast a := data)\<rparr>)"

definition write_scroll :: "byte \<Rightarrow> ppu \<Rightarrow> ppu" where
  "write_scroll data s =
     (let l = (if offset_toggle s
               then latch_set ycoarse (ucast (drop_bit 3 data))
                      (latch_set yfine (ucast (data AND 7)) (scroll s))
               else latch_set xscroll (ucast data) (scroll s))
      in s\<lparr>scroll := l, offset_toggle := \<not> offset_toggle s\<rparr>)"

definition write_vaddr :: "byte \<Rightarrow> ppu \<Rightarrow> ppu" where
  "write_vaddr data s =
     (let s' = (if offset_toggle s
                then (let l = latch_set vaddrlo (ucast data) (scroll s)
                      in s\<lparr>scroll := l, vaddr := latch_set raw (latch_get raw l) (vaddr s)\<rparr>)
                else s\<lparr>scroll := latch_set vaddrhi (ucast (data AND 0x3F)) (scroll s)\<rparr>)
      in s'\<lparr>offset_toggle := \<not> offset_toggle s\<rparr>)"

definition write_data :: "byte \<Rightarrow> ppu \<Rightarrow> ppu" where
  "write_data data s =
     (let a = latch_get raw (vaddr s);
          s = mmap_write a data s
      in vaddr_advance (RefreshOpenBus (mmap_read s a) s))"

definition Write :: "u16 \<Rightarrow> byte \<Rightarrow> ppu \<Rightarrow> ppu" where
  "Write address data s =
     (let s = RefreshOpenBus data s;
          port = address AND 0x7 in
      if port = 0 then write_sysctrl data s
      else if port = 1 then s\<lparr>reg := reg_set dispctrl (ucast data) (reg s)\<rparr>
      else if port = 3 then s\<lparr>reg := reg_set OAMaddr (ucast data) (reg s)\<rparr>
      else if port = 4 then write_OAMdata data s
      else if port = 5 then write_scroll data s
      else if port = 6 then write_vaddr data s
      else if port = 7 then write_data data s
      else s)"

lemmas bus_defs = Read_def Write_def read_status_def read_OAMdata_def read_data_def
  write_sysctrl_def write_OAMdata_def write_scroll_def write_vaddr_def write_data_def
  RefreshOpenBus_def vaddr_advance_def

section \<open>What the bus leaves alone\<close>

text \<open>Neither operation touches the beat counters, the variant or the arrays' sizes.\<close>

lemma Write_frame [ppu_frame]:
  "scanline (Write a d s) = scanline s" "x_col (Write a d s) = x_col s"
  "scanline_end (Write a d s) = scanline_end s" "mode (Write a d s) = mode s"
  "VBlankState (Write a d s) = VBlankState s"
  by (simp_all add: bus_defs Let_def)

lemma Read_frame [ppu_frame]:
  "scanline (snd (Read a s)) = scanline s" "x_col (snd (Read a s)) = x_col s"
  "scanline_end (snd (Read a s)) = scanline_end s" "mode (snd (Read a s)) = mode s"
  by (simp_all add: bus_defs Let_def split: prod.split)

lemma arrays_ok_bus [simp]:
  "arrays_ok (RefreshOpenBus v s) = arrays_ok s" "arrays_ok (vaddr_advance s) = arrays_ok s"
  "arrays_ok (write_sysctrl d s) = arrays_ok s" "arrays_ok (write_OAMdata d s) = arrays_ok s"
  "arrays_ok (write_scroll d s) = arrays_ok s" "arrays_ok (write_vaddr d s) = arrays_ok s"
  "arrays_ok (s\<lparr>reg := r\<rparr>) = arrays_ok s"
  by (simp_all add: arrays_ok_def bus_defs Let_def)

lemma Write_arrays_ok: "arrays_ok s \<Longrightarrow> arrays_ok (Write a d s)"
  by (simp add: Write_def write_data_def Let_def mmap_write_arrays_ok)

lemma Read_arrays_ok: "arrays_ok s \<Longrightarrow> arrays_ok (snd (Read a s))"
  by (simp add: bus_defs Let_def arrays_ok_def split: prod.split)

section \<open>The address and data ports\<close>

text \<open>What the two writes that load the address, a write of the data port and a read of
  the data port outside the palette do to the fields that the next access depends on.\<close>

lemma Write_vaddr_twice:
  assumes "a1 AND 7 = 6" and "a2 AND 7 = 6" and "\<not> offset_toggle s"
  shows "latch_get raw (vaddr (Write a2 lo (Write a1 hi s)))
      = push_bit 8 (ucast (hi AND 0x3F)) OR ucast lo"
    and "latch_get raw (scroll (Write a2 lo (Write a1 hi s)))
      = push_bit 8 (ucast (hi AND 0x3F)) OR ucast lo"
    and "\<not> offset_toggle (Write a2 lo (Write a1 hi s))"
    and "reg (Write a2 lo (Write a1 hi s)) = reg s"
    and "read_buffer (Write a2 lo (Write a1 hi s)) = read_buffer s"
    and "palette (Write a2 lo (Write a1 hi s)) = palette s"
    and "nes (Write a2 lo (Write a1 hi s)) = nes s"
proof -
  let ?l = "latch_set vaddrlo (ucast lo) (latch_set vaddrhi (ucast (hi AND 0x3F)) (scroll s))"
  have "push_bit 8 (take_bit 7 (ucast (hi AND 0x3F) :: u32)) OR take_bit 8 (ucast lo)
      = push_bit 8 (ucast (hi AND 0x3F)) OR ucast lo"
    by (simp only: mask_eqs, rule bit_word_eqI) (auto simp add: bit_simps dest: bit_imp_le_length)
  then have "latch_get raw ?l = push_bit 8 (ucast (hi AND 0x3F)) OR ucast lo"
    by (simp only: latch_raw_after_hi_lo)
  moreover have "take_bit 15 (latch_get raw ?l) = latch_get raw ?l"
    using take_bit_latch_get [of raw ?l] by simp
  ultimately show "latch_get raw (vaddr (Write a2 lo (Write a1 hi s)))
      = push_bit 8 (ucast (hi AND 0x3F)) OR ucast lo"
    and "latch_get raw (scroll (Write a2 lo (Write a1 hi s)))
      = push_bit 8 (ucast (hi AND 0x3F)) OR ucast lo"
    and "\<not> offset_toggle (Write a2 lo (Write a1 hi s))"
    and "reg (Write a2 lo (Write a1 hi s)) = reg s"
    and "read_buffer (Write a2 lo (Write a1 hi s)) = read_buffer s"
    and "palette (Write a2 lo (Write a1 hi s)) = palette s"
    and "nes (Write a2 lo (Write a1 hi s)) = nes s"
    using assms by (simp_all add: bus_defs Let_def)
qed

lemma Write_data_port:
  assumes "a AND 7 = 7"
  shows "mmap_read (Write a v s) b = mmap_read (mmap_write (latch_get raw (vaddr s)) v s) b"
    and "latch_get raw (vaddr (Write a v s))
      = take_bit 15 (latch_get raw (vaddr s) + (if reg_get Inc (reg s) \<noteq> 0 then 32 else 1))"
    and "offset_toggle (Write a v s) = offset_toggle s"
    and "reg (Write a v s) = reg s"
  using assms
  by (simp_all add: bus_defs Let_def mmap_read_def mmap_write_def split: prod.split)

lemma Read_data_port:
  assumes "a AND 7 = 7" and "latch_get raw (vaddr s) AND 0x3F00 \<noteq> 0x3F00"
  shows "fst (Read a s) = read_buffer s"
    and "read_buffer (snd (Read a s)) = mmap_read s (latch_get raw (vaddr s))"
    and "latch_get raw (vaddr (snd (Read a s)))
      = take_bit 15 (latch_get raw (vaddr s) + (if reg_get Inc (reg s) \<noteq> 0 then 32 else 1))"
  using assms by (simp_all add: bus_defs Let_def)

text \<open>An address whose high byte is below \<^verbatim>\<open>0x3E\<close> and the address after it, by either
  increment, are outside the palette.\<close>

lemma below_palette:
  fixes hi lo :: byte
  assumes "hi AND 0x3F < 0x3E"
  defines "A \<equiv> (push_bit 8 (ucast (hi AND 0x3F)) OR ucast lo :: u32)"
  shows "A AND 0x3F00 \<noteq> 0x3F00" and "take_bit 15 (A + (if c then 32 else 1)) AND 0x3F00 \<noteq> 0x3F00"
proof -
  have "unat (hi AND 0x3F) < 62"
    using assms(1) by (simp add: word_less_nat_alt)
  moreover have "unat lo < 256"
    using unsigned_less [of lo, where ?'a = nat] by simp
  ultimately have A: "unat A < 15872"
    by (simp add: A_def addr_unat)
  then show "A AND 0x3F00 \<noteq> 0x3F00"
    by (simp add: not_palette)
  have "unat (take_bit 15 (A + (if c then 32 else 1))) < 16128"
    using A by (simp add: unsigned_take_bit_eq take_bit_nat_def unat_word_ariths)
  then show "take_bit 15 (A + (if c then 32 else 1)) AND 0x3F00 \<noteq> 0x3F00"
    by (rule not_palette [simplified])
qed

section \<open>Reading\<close>

text \<open>\<^bold>\<open>C6.\<close> A read of the status port returns the three status flags above the low
  five bits of the open bus, clears the vertical-blank flag and the write toggle and leaves
  the other two flags, and cancels a pending raising of the flag: the blanking state
  becomes 0 unless it is the clearing state \<open>-5\<close>. The open bus and its decay timer are
  not refreshed by this read.\<close>

theorem read_status_port:
  assumes "a AND 7 = 2"
  shows "fst (Read a s) = ucast (reg_get status (reg s)) OR (open_bus s AND 0x1F)
    \<and> reg_get InVBlank (reg (snd (Read a s))) = 0
    \<and> \<not> offset_toggle (snd (Read a s))
    \<and> reg_get SP0hit (reg (snd (Read a s))) = reg_get SP0hit (reg s)
    \<and> reg_get SPoverflow (reg (snd (Read a s))) = reg_get SPoverflow (reg s)
    \<and> VBlankState (snd (Read a s)) = (if VBlankState s = - 5 then - 5 else 0)
    \<and> open_bus (snd (Read a s)) = open_bus s
    \<and> open_bus_decay_timer (snd (Read a s)) = open_bus_decay_timer s"
  using assms by (simp add: bus_defs Let_def)

theorem read_status_port_witness:
  "(0x2002 :: u16) AND 7 = 2
   \<and> fst (Read 0x2002 (blank_ppu\<lparr>reg := 0x800000, VBlankState := 2\<rparr>)) = 0x80
   \<and> VBlankState (snd (Read 0x2002 (blank_ppu\<lparr>reg := 0x800000, VBlankState := 2\<rparr>))) = 0"
  using read_status_port [where a = "0x2002" and s = "blank_ppu\<lparr>reg := 0x800000, VBlankState := 2\<rparr>"]
  by (simp add: blank_ppu_def reg_defs bf_get_def)

text \<open>\<^bold>\<open>C31.\<close> A read of a port that has no read side (0, 1, 3, 5, 6) returns the open
  bus and changes nothing.\<close>

theorem read_write_only_port:
  assumes "a AND 7 \<notin> {2, 4, 7}"
  shows "Read a s = (open_bus s, s)"
  using assms by (simp add: Read_def)

theorem read_write_only_port_witness:
  "(0x2005 :: u16) AND 7 \<notin> {2, 4, 7} \<and> Read 0x2005 blank_ppu = (0, blank_ppu)"
  using read_write_only_port [where a = "0x2005" and s = blank_ppu] by (simp add: blank_ppu_def)

text \<open>\<^bold>\<open>C17.\<close> A read of the data port outside the palette is buffered: it returns the
  byte latched by the previous read, latches the byte at the current address, refreshes
  the open bus with what it returned and steps the address by 1 or 32.\<close>

theorem read_data_buffered:
  assumes "a AND 7 = 7" and "latch_get raw (vaddr s) AND 0x3F00 \<noteq> 0x3F00"
  shows "fst (Read a s) = read_buffer s
    \<and> read_buffer (snd (Read a s)) = mmap_read s (latch_get raw (vaddr s))
    \<and> open_bus (snd (Read a s)) = read_buffer s
    \<and> latch_get raw (vaddr (snd (Read a s)))
        = take_bit 15 (latch_get raw (vaddr s) + (if reg_get Inc (reg s) \<noteq> 0 then 32 else 1))"
  using assms by (simp add: bus_defs Let_def)

theorem read_data_buffered_witness:
  "(0x2007 :: u16) AND 7 = 7 \<and> latch_get raw (vaddr blank_ppu) AND 0x3F00 \<noteq> 0x3F00
   \<and> latch_get raw (vaddr (snd (Read 0x2007 blank_ppu))) = 1"
  using read_data_buffered [where a = "0x2007" and s = blank_ppu]
  by (simp add: blank_ppu_def reg_defs bf_get_def)

text \<open>\<^bold>\<open>C18.\<close> A read of the data port inside the palette is immediate: it returns the
  low six bits of the palette entry under the two high bits of the open bus, and latches
  the nametable byte that lies under the palette (address masked with \<^verbatim>\<open>0x2FFF\<close>).\<close>

theorem read_data_palette:
  assumes "a AND 7 = 7" and "latch_get raw (vaddr s) AND 0x3F00 = 0x3F00"
  shows "fst (Read a s)
      = (open_bus s AND 0xC0) OR (mmap_read s (latch_get raw (vaddr s)) AND 0x3F)
    \<and> read_buffer (snd (Read a s)) = mmap_read s (latch_get raw (vaddr s) AND 0x2FFF)
    \<and> open_bus (snd (Read a s)) = fst (Read a s)"
  using assms by (simp add: bus_defs Let_def)

theorem read_data_palette_witness:
  "(0x2007 :: u16) AND 7 = 7
   \<and> latch_get raw (vaddr (blank_ppu\<lparr>vaddr := 0x1F800\<rparr>)) AND 0x3F00 = 0x3F00
   \<and> fst (Read 0x2007 (blank_ppu\<lparr>vaddr := 0x1F800\<rparr>)) = 0x09"
  using read_data_palette [where a = "0x2007" and s = "blank_ppu\<lparr>vaddr := 0x1F800\<rparr>"]
  by (simp add: blank_ppu_def blank_nes_def reg_defs bf_get_def mmap_read_def mmap_eq_locate
      region_of_def power_palette_def)

section \<open>Writing\<close>

text \<open>The data port stores the byte and refreshes the bus with the byte read back from
  the cell, which is the byte stored.\<close>

lemma write_data_open_bus:
  assumes "arrays_ok s"
  shows "open_bus (write_data d s) = d" "open_bus_decay_timer (write_data d s) = 77777"
  using assms by (simp_all add: write_data_def RefreshOpenBus_def vaddr_advance_def Let_def
      mmap_read_after_write)

lemma Write_open_bus:
  assumes "arrays_ok s"
  shows "open_bus (Write a d s) = d" "open_bus_decay_timer (Write a d s) = 77777"
proof -
  have "arrays_ok (RefreshOpenBus d s)"
    using assms by simp
  then show "open_bus (Write a d s) = d" "open_bus_decay_timer (Write a d s) = 77777"
    by (simp_all add: Write_def Let_def write_data_open_bus)
      (simp_all add: bus_defs Let_def)
qed

text \<open>\<^bold>\<open>C20.\<close> Every write refreshes the open bus with the written byte and restarts the
  decay timer at 77777, whatever the port.\<close>

theorem write_refreshes_open_bus:
  assumes "arrays_ok s"
  shows "open_bus (Write a d s) = d \<and> open_bus_decay_timer (Write a d s) = 77777"
  using assms by (simp add: Write_open_bus)

theorem write_refreshes_open_bus_witness:
  "arrays_ok blank_ppu \<and> open_bus (Write 0x2007 0x55 blank_ppu) = 0x55
   \<and> open_bus_decay_timer (Write 0x2007 0x55 blank_ppu) = 77777"
  using write_refreshes_open_bus [where s = blank_ppu and a = "0x2007" and d = "0x55"]
  by (simp add: arrays_ok_def gamepak_ok_def blank_ppu_def blank_nes_def)

text \<open>\<^bold>\<open>C7.\<close> Two writes to the address port, starting with the toggle clear, load the
  current video address: it is the low six bits of the first byte above the second byte,
  it equals the address part of the scroll latch, and the toggle is clear again.\<close>

theorem vaddr_double_write:
  assumes "a1 AND 7 = 6" and "a2 AND 7 = 6" and "\<not> offset_toggle s"
  shows "latch_get raw (vaddr (Write a2 lo (Write a1 hi s)))
      = push_bit 8 (ucast (hi AND 0x3F)) OR ucast lo
    \<and> latch_get raw (vaddr (Write a2 lo (Write a1 hi s)))
      = latch_get raw (scroll (Write a2 lo (Write a1 hi s)))
    \<and> \<not> offset_toggle (Write a2 lo (Write a1 hi s))"
  using assms by (simp add: Write_vaddr_twice)

theorem vaddr_double_write_witness:
  "(0x2006 :: u16) AND 7 = 6 \<and> \<not> offset_toggle blank_ppu
   \<and> latch_get raw (vaddr (Write 0x2006 0x10 (Write 0x2006 0xFF blank_ppu))) = 0x3F10"
  using vaddr_double_write [where s = blank_ppu and ?a1.0 = "0x2006" and ?a2.0 = "0x2006"
      and hi = "0xFF" and lo = "0x10"]
  by (simp add: blank_ppu_def)

text \<open>\<^bold>\<open>C16.\<close> Two writes to the scroll port, starting with the toggle clear, load the
  scroll latch: fine X and coarse X are the low three and the high five bits of the first
  byte, fine Y and coarse Y those of the second, and the toggle is clear again.\<close>

theorem scroll_double_write:
  assumes "a1 AND 7 = 5" and "a2 AND 7 = 5" and "\<not> offset_toggle s"
  shows "latch_get xfine (scroll (Write a2 d2 (Write a1 d1 s))) = ucast (d1 AND 7)
    \<and> latch_get xcoarse (scroll (Write a2 d2 (Write a1 d1 s))) = ucast (drop_bit 3 d1)
    \<and> latch_get yfine (scroll (Write a2 d2 (Write a1 d1 s))) = ucast (d2 AND 7)
    \<and> latch_get ycoarse (scroll (Write a2 d2 (Write a1 d1 s))) = ucast (drop_bit 3 d2)
    \<and> \<not> offset_toggle (Write a2 d2 (Write a1 d1 s))"
proof -
  have "bf_get 0 3 (ucast d1 :: u32) = ucast (d1 AND 7)"
    "bf_get 3 5 (ucast d1 :: u32) = ucast (drop_bit 3 d1)"
    "take_bit 3 (ucast (d2 AND 7) :: u32) = ucast (d2 AND 7)"
    "take_bit 5 (ucast (drop_bit 3 d2) :: u32) = ucast (drop_bit 3 d2)"
    by ((simp only: mask_eqs)?, rule bit_word_eqI,
        auto simp add: bit_simps dest: bit_imp_le_length)+
  with assms show ?thesis
    by (simp add: bus_defs Let_def)
qed

theorem scroll_double_write_witness:
  "(0x2005 :: u16) AND 7 = 5 \<and> \<not> offset_toggle blank_ppu
   \<and> latch_get xfine (scroll (Write 0x2005 0x5E (Write 0x2005 0x7D blank_ppu))) = 5
   \<and> latch_get xcoarse (scroll (Write 0x2005 0x5E (Write 0x2005 0x7D blank_ppu))) = 0x0F
   \<and> latch_get yfine (scroll (Write 0x2005 0x5E (Write 0x2005 0x7D blank_ppu))) = 6
   \<and> latch_get ycoarse (scroll (Write 0x2005 0x5E (Write 0x2005 0x7D blank_ppu))) = 0x0B"
  using scroll_double_write [where s = blank_ppu and ?a1.0 = "0x2005" and ?a2.0 = "0x2005"
      and ?d1.0 = "0x7D" and ?d2.0 = "0x5E"]
  by (simp add: blank_ppu_def)

text \<open>\<^bold>\<open>C19.\<close> Object attribute memory through ports 3 and 4: after the index is set
  and a byte written, the index has moved on by one (modulo 256); setting the index again
  and reading returns the byte, without its bits 2..4 when the index addresses an
  attribute byte.\<close>

theorem oam_write_read:
  assumes "a3 AND 7 = 3" and "a4 AND 7 = 4"
  shows "reg_get OAMaddr (reg (Write a4 d (Write a3 k s))) = ucast (k + 1)
    \<and> fst (Read a4 (Write a3 k (Write a4 d (Write a3 k s))))
        = d AND (if k AND 3 = 2 then 0xE3 else 0xFF)"
proof -
  have k: "unat k < 256"
    using unsigned_less [of k, where ?'a = nat] by simp
  have "take_bit 8 (ucast k + 1 :: u32) = ucast (k + 1)"
    using k by (simp add: word_eq_iff_unsigned [where ?'a = nat] unsigned_take_bit_eq
        take_bit_nat_def unat_word_ariths)
  moreover have "bf_get 0 2 (ucast k :: u32) = 2 \<longleftrightarrow> k AND 3 = 2"
    using k by (simp add: bf_get_def word_eq_iff_unsigned [where ?'a = nat]
        unsigned_take_bit_eq take_bit_nat_def unat_masks)
  ultimately show ?thesis
    using assms by (simp add: bus_defs Let_def)
qed

theorem oam_write_read_witness:
  "(0x2003 :: u16) AND 7 = 3 \<and> (0x2004 :: u16) AND 7 = 4
   \<and> fst (Read 0x2004 (Write 0x2003 2 (Write 0x2004 0xFF (Write 0x2003 2 blank_ppu)))) = 0xE3"
  using oam_write_read [where s = blank_ppu and ?a3.0 = "0x2003" and ?a4.0 = "0x2004"
      and k = 2 and d = "0xFF"]
  by simp

end
