(* ===== verification/PPU_Render.thy ===== *)
theory PPU_Render
  imports PPU_State
begin

text \<open>
  \<^verbatim>\<open>Ppu::rendering_tick\<close>: the work of one beat on a scanline that processes graphics. It is
  two \<^verbatim>\<open>switch\<close> statements in sequence. The first, on \<^verbatim>\<open>x % 8\<close>, is the memory pipeline:
  it points \<^verbatim>\<open>ioaddr\<close> at the nametable or the attribute table, reads the tile number and
  the attribute, reads the two pattern bytes and interleaves them; during columns 256..319
  the same slots fetch the patterns of the sprites selected for the next scanline. The
  second is sprite evaluation, a walk over primary OAM on the odd columns 65..255.
\<close>

section \<open>Helpers\<close>

text \<open>\<^verbatim>\<open>0x10FFFF & (1u << (x>>4))\<close>: true in columns 0..255 and 320..335.\<close>

definition tile_decode_mode :: "nat \<Rightarrow> bool" where
  "tile_decode_mode x = bit (0x10FFFF :: u32) (x div 16)"

text \<open>The three swap stages that interleave the bits of the low and the high pattern byte.\<close>

definition interleave :: "u32 \<Rightarrow> u32" where
  "interleave p0 =
     (let p = (p0 AND 0xF00F) OR drop_bit 4 (p0 AND 0x0F00) OR push_bit 4 (p0 AND 0x00F0);
          p = (p AND 0xC3C3) OR drop_bit 2 (p AND 0x3030) OR push_bit 2 (p AND 0x0C0C);
          p = (p AND 0x9999) OR drop_bit 1 (p AND 0x4444) OR push_bit 1 (p AND 0x2222)
      in p)"

text \<open>What case 7 assigns to \<^verbatim>\<open>tilepat\<close> when case 5 has put the low byte there.\<close>

definition weave :: "byte \<Rightarrow> byte \<Rightarrow> u16" where
  "weave lo hi = ucast (interleave (ucast lo OR push_bit 8 (ucast hi)))"

text \<open>The decoder of the interleaved pattern, as a specification: the byte made of every
  second bit, starting at bit \<open>b\<close>.\<close>

definition gather :: "nat \<Rightarrow> u16 \<Rightarrow> byte" where
  "gather b p = horner_sum of_bool 2 (map (\<lambda>k. bit p (2 * k + b)) [0..<8])"

section \<open>The memory pipeline\<close>

text \<open>Case 0, and case 2 outside tile decoding: point to the nametable; at column 0 reset
  sprite evaluation; with the background shown, reload the scroll position.\<close>

definition point_nametable :: "ppu \<Rightarrow> ppu" where
  "point_nametable s0 =
     (let x = x_col s0;
          s = s0\<lparr>ioaddr := ucast (0x2000 + (latch_get raw (vaddr s0) AND 0xFFF))\<rparr>;
          s = (if x = 0
               then (let s = s\<lparr>sprinpos := 0, sproutpos := 0\<rparr>
                     in if reg_get ShowSP (reg s) \<noteq> 0 then s\<lparr>reg := reg_set OAMaddr 0 (reg s)\<rparr> else s)
               else s)
      in if reg_get ShowBG (reg s) = 0 then s
         else (let s = (if x = 304 \<and> scanline s = - 1
                        then s\<lparr>vaddr := latch_set raw (latch_get raw (scroll s)) (vaddr s)\<rparr> else s)
               in if x = 256
                  then s\<lparr>vaddr := latch_set basenta_h (latch_get basenta_h (scroll s))
                                   (latch_set xcoarse (latch_get xcoarse (scroll s)) (vaddr s)),
                         sprrenpos := 0\<rparr>
                  else s))"

text \<open>Case 2: point to the attribute table; falls through to case 0 outside tile decoding.\<close>

definition point_attribute :: "ppu \<Rightarrow> ppu" where
  "point_attribute s0 =
     (let v = vaddr s0;
          s = s0\<lparr>ioaddr := ucast (0x23C0 + 0x400 * latch_get basenta v
                                + 8 * (latch_get ycoarse v div 4) + latch_get xcoarse v div 4)\<rparr>
      in if tile_decode_mode (x_col s0) then s else point_nametable s)"

text \<open>Case 1: the tile number has arrived; form the pattern address and push the tile
  fetched before into the shift registers.\<close>

definition fetch_nametable :: "ppu \<Rightarrow> ppu" where
  "fetch_nametable s0 =
     (let s = (if x_col s0 = 337 \<and> scanline s0 = - 1 \<and> even_odd_toggle s0
                  \<and> reg_get ShowBG (reg s0) \<noteq> 0 \<and> mode s0 = NTSC
               then s0\<lparr>scanline_end := 340\<rparr> else s0);
          s = s\<lparr>pat_addr := 0x1000 * reg_get BGaddr (reg s)
                            + 16 * ucast (mmap_read s (ucast (ioaddr s)))
                            + latch_get yfine (vaddr s)\<rparr>
      in if \<not> tile_decode_mode (x_col s0) then s
         else s\<lparr>bg_shift_pat := drop_bit 16 (bg_shift_pat s) + 0x00010000 * ucast (tilepat s),
                bg_shift_attr := drop_bit 16 (bg_shift_attr s) + 0x55550000 * ucast (tileattr s)\<rparr>)"

text \<open>Case 3 in tile decoding: take the attribute bits of the tile and step to the next
  tile, horizontally and, at column 251, vertically.\<close>

definition next_tile_x :: "latch \<Rightarrow> latch" where
  "next_tile_x v0 =
     (let v = latch_inc xcoarse v0
      in if latch_get xcoarse v = 0 then latch_set basenta_h (1 - latch_get basenta_h v) v else v)"

definition next_tile_y :: "latch \<Rightarrow> latch" where
  "next_tile_y v0 =
     (let v = latch_inc yfine v0
      in if latch_get yfine v \<noteq> 0 then v
         else (let v = latch_inc ycoarse v
               in if latch_get ycoarse v = 30
                  then latch_set basenta_v (1 - latch_get basenta_v v) (latch_set ycoarse 0 v)
                  else v))"

definition fetch_attribute :: "ppu \<Rightarrow> ppu" where
  "fetch_attribute s =
     (let v = vaddr s;
          a = drop_bit (unat ((latch_get xcoarse v AND 2) + 2 * (latch_get ycoarse v AND 2)))
                (mmap_read s (ucast (ioaddr s))) AND 3;
          v = next_tile_x v;
          v = (if x_col s = 251 then next_tile_y v else v)
      in s\<lparr>tileattr := ucast a, vaddr := v\<rparr>)"

text \<open>Case 3 in columns 256..319: copy the next selected sprite to the render table and
  form the address of its pattern row.\<close>

definition sprite_pat_addr :: "u32 \<Rightarrow> int \<Rightarrow> sprite \<Rightarrow> u32" where
  "sprite_pat_addr r sl sp =
     (let big = reg_get SPsize r \<noteq> 0;
          y = (word_of_int (sl - uint (spr_y sp)) :: u32);
          y = (if spr_attr sp AND 0x80 \<noteq> 0 then y XOR (if big then 15 else 7) else y);
          a = 0x1000 * (if big then ucast (spr_index sp AND 0x01) else reg_get SPaddr r);
          a = a + 0x10 * (if big then ucast (spr_index sp AND 0xFE) else ucast (spr_index sp AND 0xFF))
      in a + ((y AND 7) + (y AND 8) * 2))"

definition fetch_sprite :: "ppu \<Rightarrow> ppu" where
  "fetch_sprite s =
     (let k = sprrenpos s mod 8;
          sp = OAM2 s ! k
      in s\<lparr>OAM3 := (OAM3 s)[k := sp], pat_addr := sprite_pat_addr (reg s) (scanline s) sp\<rparr>)"

text \<open>Cases 5 and 7: the two pattern bytes.\<close>

definition fetch_pattern_lo :: "ppu \<Rightarrow> ppu" where
  "fetch_pattern_lo s = s\<lparr>tilepat := ucast (mmap_read s (pat_addr s))\<rparr>"

definition fetch_pattern_hi :: "ppu \<Rightarrow> ppu" where
  "fetch_pattern_hi s0 =
     (let p = ucast (tilepat s0) OR push_bit 8 (ucast (mmap_read s0 (pat_addr s0 OR 8)));
          s = s0\<lparr>tilepat := ucast (interleave p)\<rparr>
      in if \<not> tile_decode_mode (x_col s0) \<and> sprrenpos s < sproutpos s
         then (let k = sprrenpos s mod 8
               in s\<lparr>OAM3 := (OAM3 s)[k := (OAM3 s ! k)\<lparr>pattern := tilepat s\<rparr>],
                     sprrenpos := sprrenpos s + 1\<rparr>)
         else s)"

definition bg_fetch :: "ppu \<Rightarrow> ppu" where
  "bg_fetch s =
     (let ph = x_col s mod 8 in
      if ph = 2 then point_attribute s
      else if ph = 0 then point_nametable s
      else if ph = 1 then fetch_nametable s
      else if ph = 3 then
        (if tile_decode_mode (x_col s) then fetch_attribute s
         else if sprrenpos s < sproutpos s then fetch_sprite s else s)
      else if ph = 5 then fetch_pattern_lo s
      else if ph = 7 then fetch_pattern_hi s
      else s)"

section \<open>Sprite evaluation\<close>

text \<open>One field of the entry that is being filled, guarded by \<^verbatim>\<open>sproutpos < 8\<close>.\<close>

definition put_OAM2 :: "(sprite \<Rightarrow> sprite) \<Rightarrow> ppu \<Rightarrow> ppu" where
  "put_OAM2 f s =
     (if sproutpos s < 8 then s\<lparr>OAM2 := (OAM2 s)[sproutpos s := f (OAM2 s ! sproutpos s)]\<rparr> else s)"

definition eval_y :: "ppu \<Rightarrow> ppu" where
  "eval_y s0 =
     (if 64 \<le> sprinpos s0 then s0\<lparr>reg := reg_set OAMaddr 0 (reg s0)\<rparr>
      else
       (let s = s0\<lparr>sprinpos := sprinpos s0 + 1\<rparr>;
            s = put_OAM2 (\<lambda>e. e\<lparr>spr_y := sprtmp s\<rparr>) s;
            s = put_OAM2 (\<lambda>e. e\<lparr>sprindex := ucast (reg_get OAMindex (reg s))\<rparr>) s;
            y1 = uint (sprtmp s);
            y2 = uint (sprtmp s) + (if reg_get SPsize (reg s) \<noteq> 0 then 16 else 8)
        in if \<not> (y1 \<le> scanline s \<and> scanline s < y2)
           then s\<lparr>reg := reg_set OAMaddr
                           (if sprinpos s \<noteq> 2 then reg_get OAMaddr (reg s) + 3 else 8) (reg s)\<rparr>
           else s))"

definition eval_x :: "ppu \<Rightarrow> ppu" where
  "eval_x s0 =
     (let s = put_OAM2 (\<lambda>e. e\<lparr>spr_x := sprtmp s0\<rparr>) s0;
          s = (if sproutpos s < 8 then s\<lparr>sproutpos := sproutpos s + 1\<rparr>
               else s\<lparr>reg := reg_set SPoverflow 1 (reg s)\<rparr>)
      in if sprinpos s = 2 then s\<lparr>reg := reg_set OAMaddr 8 (reg s)\<rparr> else s)"

definition sprite_eval :: "ppu \<Rightarrow> ppu" where
  "sprite_eval s0 =
     (let x = x_col s0 in
      if 64 \<le> x \<and> x < 256 \<and> x mod 2 \<noteq> 0
      then
        (let a = reg_get OAMaddr (reg s0);
             s = s0\<lparr>reg := reg_set OAMaddr (a + 1) (reg s0)\<rparr>;
             sel = a AND 3
         in if sel = 0 then eval_y s
            else if sel = 1 then put_OAM2 (\<lambda>e. e\<lparr>spr_index := sprtmp s\<rparr>) s
            else if sel = 2 then put_OAM2 (\<lambda>e. e\<lparr>spr_attr := sprtmp s\<rparr>) s
            else eval_x s)
      else s0\<lparr>sprtmp := OAM s0 (ucast (reg_get OAMaddr (reg s0)))\<rparr>)"

definition rendering_tick :: "ppu \<Rightarrow> ppu" where
  "rendering_tick s = sprite_eval (bg_fetch s)"

section \<open>Working state and counters\<close>

text \<open>The projection that forgets the fields \<^verbatim>\<open>rendering_tick\<close> works on: two states with
  the same image differ only in the pipeline registers, the sprite tables and counters,
  the register bank, \<^verbatim>\<open>vaddr\<close> and \<^verbatim>\<open>scanline_end\<close>.\<close>

definition outside_render :: "ppu \<Rightarrow> ppu" where
  "outside_render s = s\<lparr>scanline_end := 0, reg := 0, vaddr := 0, OAM2 := [], OAM3 := [],
     ioaddr := 0, pat_addr := 0, tilepat := 0, tileattr := 0, bg_shift_pat := 0,
     bg_shift_attr := 0, sprinpos := 0, sproutpos := 0, sprrenpos := 0, sprtmp := 0\<rparr>"

text \<open>The ranges of the three sprite counters: sprites examined, sprites selected for the
  next scanline, sprite patterns fetched.\<close>

definition counters_ok :: "ppu \<Rightarrow> bool" where
  "counters_ok s \<longleftrightarrow> sprinpos s \<le> 64 \<and> sproutpos s \<le> 8 \<and> sprrenpos s \<le> 8"

lemmas render_defs = rendering_tick_def bg_fetch_def sprite_eval_def point_nametable_def
  point_attribute_def fetch_nametable_def fetch_attribute_def fetch_sprite_def
  fetch_pattern_lo_def fetch_pattern_hi_def put_OAM2_def eval_y_def eval_x_def

section \<open>Properties of every slot\<close>

text \<open>A property that each slot of the pipeline and each step of sprite evaluation
  preserves is preserved by the whole tick. The invariants below are instances.\<close>

lemma bg_fetch_preserves:
  assumes "\<And>s. P s \<Longrightarrow> P (point_nametable s)" "\<And>s. P s \<Longrightarrow> P (point_attribute s)"
    and "\<And>s. P s \<Longrightarrow> P (fetch_nametable s)" "\<And>s. P s \<Longrightarrow> P (fetch_attribute s)"
    and "\<And>s. P s \<Longrightarrow> P (fetch_sprite s)" "\<And>s. P s \<Longrightarrow> P (fetch_pattern_lo s)"
    and "\<And>s. P s \<Longrightarrow> P (fetch_pattern_hi s)"
  shows "P s \<Longrightarrow> P (bg_fetch s)"
  by (simp add: bg_fetch_def Let_def assms)

lemma sprite_eval_preserves:
  assumes "\<And>s. P s \<Longrightarrow> P (eval_y s)" "\<And>s. P s \<Longrightarrow> P (eval_x s)"
    and "\<And>f s. P s \<Longrightarrow> P (put_OAM2 f s)"
    and "\<And>v s. P s \<Longrightarrow> P (s\<lparr>reg := reg_set OAMaddr v (reg s)\<rparr>)"
    and "\<And>v s. P s \<Longrightarrow> P (s\<lparr>sprtmp := v\<rparr>)"
  shows "P s \<Longrightarrow> P (sprite_eval s)"
  by (simp add: sprite_eval_def Let_def assms)

lemma rendering_tick_preserves:
  assumes "\<And>s. P s \<Longrightarrow> P (point_nametable s)" "\<And>s. P s \<Longrightarrow> P (point_attribute s)"
    and "\<And>s. P s \<Longrightarrow> P (fetch_nametable s)" "\<And>s. P s \<Longrightarrow> P (fetch_attribute s)"
    and "\<And>s. P s \<Longrightarrow> P (fetch_sprite s)" "\<And>s. P s \<Longrightarrow> P (fetch_pattern_lo s)"
    and "\<And>s. P s \<Longrightarrow> P (fetch_pattern_hi s)"
    and "\<And>s. P s \<Longrightarrow> P (eval_y s)" "\<And>s. P s \<Longrightarrow> P (eval_x s)"
    and "\<And>f s. P s \<Longrightarrow> P (put_OAM2 f s)"
    and "\<And>v s. P s \<Longrightarrow> P (s\<lparr>reg := reg_set OAMaddr v (reg s)\<rparr>)"
    and "\<And>v s. P s \<Longrightarrow> P (s\<lparr>sprtmp := v\<rparr>)"
  shows "P s \<Longrightarrow> P (rendering_tick s)"
  unfolding rendering_tick_def
  by (intro sprite_eval_preserves [where P = P] bg_fetch_preserves [where P = P] assms)

lemmas slot_defs = point_nametable_def point_attribute_def fetch_nametable_def
  fetch_attribute_def fetch_sprite_def fetch_pattern_lo_def fetch_pattern_hi_def
  put_OAM2_def eval_y_def eval_x_def Let_def

lemma rendering_tick_counters_ok: "counters_ok s \<Longrightarrow> counters_ok (rendering_tick s)"
  by (erule rendering_tick_preserves [rotated -1]) (simp_all add: counters_ok_def slot_defs)

lemma rendering_tick_arrays_ok: "arrays_ok s \<Longrightarrow> arrays_ok (rendering_tick s)"
  by (erule rendering_tick_preserves [rotated -1]) (simp_all add: arrays_ok_def slot_defs)

lemma rendering_tick_outside: "outside_render (rendering_tick s) = outside_render s"
proof -
  have "outside_render (rendering_tick s') = outside_render s"
    if "outside_render s' = outside_render s" for s'
    using that by (rule rendering_tick_preserves [rotated -1])
      (simp_all add: outside_render_def slot_defs)
  then show ?thesis
    by simp
qed

lemma outside_render_sel:
  assumes "outside_render s' = outside_render s"
  shows "scanline s' = scanline s" "x_col s' = x_col s" "mode s' = mode s"
    "VBlankState s' = VBlankState s" "even_odd_toggle s' = even_odd_toggle s"
    "nes s' = nes s" "palette s' = palette s" "scroll s' = scroll s"
    "cycle_counter s' = cycle_counter s" "cycles s' = cycles s" "open_bus s' = open_bus s"
    "open_bus_decay_timer s' = open_bus_decay_timer s" "read_buffer s' = read_buffer s"
    "offset_toggle s' = offset_toggle s" "OAM s' = OAM s"
  using arg_cong [OF assms, of scanline] arg_cong [OF assms, of x_col]
    arg_cong [OF assms, of mode] arg_cong [OF assms, of VBlankState]
    arg_cong [OF assms, of even_odd_toggle] arg_cong [OF assms, of nes]
    arg_cong [OF assms, of palette] arg_cong [OF assms, of scroll]
    arg_cong [OF assms, of cycle_counter] arg_cong [OF assms, of cycles]
    arg_cong [OF assms, of open_bus] arg_cong [OF assms, of open_bus_decay_timer]
    arg_cong [OF assms, of read_buffer] arg_cong [OF assms, of offset_toggle]
    arg_cong [OF assms, of OAM]
  by (simp_all add: outside_render_def)

lemmas rendering_tick_frame [ppu_frame, simp] = outside_render_sel [OF rendering_tick_outside]

lemma blank_ppu_counters_ok [simp]: "counters_ok blank_ppu"
  by (simp add: counters_ok_def blank_ppu_def)

text \<open>\<^bold>\<open>C9.\<close> A rendering tick keeps the declared sizes of the palette, the two sprite
  tables and the cartridge tables, and keeps the three sprite counters in range: at most
  64 sprites examined, at most 8 selected, at most 8 patterns fetched.\<close>

theorem rendering_tick_safe:
  assumes "arrays_ok s" and "counters_ok s"
  shows "arrays_ok (rendering_tick s) \<and> counters_ok (rendering_tick s)"
  using assms by (simp add: rendering_tick_arrays_ok rendering_tick_counters_ok)

theorem rendering_tick_safe_witness:
  "arrays_ok blank_ppu \<and> counters_ok blank_ppu
   \<and> arrays_ok (rendering_tick blank_ppu) \<and> counters_ok (rendering_tick blank_ppu)"
  using rendering_tick_safe [of blank_ppu] by simp

text \<open>\<^bold>\<open>C25.\<close> A rendering tick works on the pipeline registers, the sprite tables and
  counters, the register bank, \<^verbatim>\<open>vaddr\<close> and \<^verbatim>\<open>scanline_end\<close> only: the console
  (cartridge memory, frame buffer, interrupt line, callbacks), the palette, primary OAM,
  the scroll latch, the beam position and the vertical-blanking state are as before.\<close>

theorem rendering_tick_local:
  "nes (rendering_tick s) = nes s \<and> palette (rendering_tick s) = palette s
   \<and> OAM (rendering_tick s) = OAM s \<and> scroll (rendering_tick s) = scroll s
   \<and> scanline (rendering_tick s) = scanline s \<and> x_col (rendering_tick s) = x_col s
   \<and> VBlankState (rendering_tick s) = VBlankState s
   \<and> even_odd_toggle (rendering_tick s) = even_odd_toggle s"
  by simp

section \<open>Tile decoding and the scroll counters\<close>

lemma bit_10FFFF: "bit (0x10FFFF :: u32) n \<longleftrightarrow> n < 16 \<or> n = 20"
proof -
  have "(0x10FFFF :: u32) = mask 16 OR push_bit 20 1"
    by (simp add: mask_numeral)
  then show ?thesis
    by (simp only: bit_simps) auto
qed

lemma ycoarse_inc_30:
  "latch_get ycoarse (latch_inc ycoarse l) = 30 \<longleftrightarrow> unat (latch_get ycoarse l) = 29"
proof -
  have "latch_get ycoarse (latch_inc ycoarse l) = 30
    \<longleftrightarrow> unat (latch_get ycoarse (latch_inc ycoarse l)) = 30"
    by (simp add: word_eq_iff_unsigned [where ?'a = nat])
  also have "\<dots> \<longleftrightarrow> unat (latch_get ycoarse l) = 29"
    using unat_latch_get_less [of ycoarse l] by (auto simp add: unat_latch_inc mod_Suc)
  finally show ?thesis .
qed

text \<open>\<^bold>\<open>C26.\<close> The mask \<^verbatim>\<open>0x10FFFF & (1u << (x>>4))\<close> selects the columns in which
  background tiles are decoded: 0..255 and 320..335, as the comment of the source says.\<close>

theorem tile_decode_mode_iff: "tile_decode_mode x \<longleftrightarrow> x < 256 \<or> (320 \<le> x \<and> x < 336)"
proof -
  have "x div 16 < 16 \<longleftrightarrow> x < 256" "x div 16 = 20 \<longleftrightarrow> 320 \<le> x \<and> x < 336"
    by arith+
  then show ?thesis
    unfolding tile_decode_mode_def bit_10FFFF by simp
qed

text \<open>\<^bold>\<open>C23.\<close> Stepping to the next tile horizontally: coarse X counts modulo 32, the
  horizontal nametable bit flips exactly when coarse X wraps from 31 to 0, and the
  vertical position and fine X are untouched.\<close>

theorem next_tile_x_counter:
  "unat (latch_get xcoarse (next_tile_x v)) = (unat (latch_get xcoarse v) + 1) mod 32
   \<and> latch_get basenta_h (next_tile_x v)
       = (if unat (latch_get xcoarse v) = 31 then 1 - latch_get basenta_h v
          else latch_get basenta_h v)
   \<and> latch_get ycoarse (next_tile_x v) = latch_get ycoarse v
   \<and> latch_get yfine (next_tile_x v) = latch_get yfine v
   \<and> latch_get basenta_v (next_tile_x v) = latch_get basenta_v v
   \<and> latch_get xfine (next_tile_x v) = latch_get xfine v"
  using unat_latch_inc [of xcoarse v]
  by (simp add: next_tile_x_def Let_def latch_inc_zero_iff)

text \<open>\<^bold>\<open>C24.\<close> Stepping to the next pixel row: fine Y counts modulo 8; when it wraps,
  coarse Y steps, from 29 to 0 with a flip of the vertical nametable bit, and from 31 to 0
  without one (a row counter set into the attribute area by the program); the horizontal
  position is untouched.\<close>

theorem next_tile_y_counter:
  "unat (latch_get yfine (next_tile_y v)) = (unat (latch_get yfine v) + 1) mod 8
   \<and> unat (latch_get ycoarse (next_tile_y v))
       = (if unat (latch_get yfine v) \<noteq> 7 then unat (latch_get ycoarse v)
          else if unat (latch_get ycoarse v) = 29 then 0
          else (unat (latch_get ycoarse v) + 1) mod 32)
   \<and> latch_get basenta_v (next_tile_y v)
       = (if unat (latch_get yfine v) = 7 \<and> unat (latch_get ycoarse v) = 29
          then 1 - latch_get basenta_v v else latch_get basenta_v v)
   \<and> latch_get xcoarse (next_tile_y v) = latch_get xcoarse v
   \<and> latch_get basenta_h (next_tile_y v) = latch_get basenta_h v
   \<and> latch_get xfine (next_tile_y v) = latch_get xfine v"
  using unat_latch_inc [of yfine v] unat_latch_inc [of ycoarse "latch_inc yfine v"]
  by (simp add: next_tile_y_def Let_def latch_inc_zero_iff ycoarse_inc_30)

section \<open>Interleaving\<close>

lemma weave_table:
  "bit (weave lo hi) 0 = bit lo 0" "bit (weave lo hi) 1 = bit hi 0"
  "bit (weave lo hi) 2 = bit lo 1" "bit (weave lo hi) 3 = bit hi 1"
  "bit (weave lo hi) 4 = bit lo 2" "bit (weave lo hi) 5 = bit hi 2"
  "bit (weave lo hi) 6 = bit lo 3" "bit (weave lo hi) 7 = bit hi 3"
  "bit (weave lo hi) 8 = bit lo 4" "bit (weave lo hi) 9 = bit hi 4"
  "bit (weave lo hi) 10 = bit lo 5" "bit (weave lo hi) 11 = bit hi 5"
  "bit (weave lo hi) 12 = bit lo 6" "bit (weave lo hi) 13 = bit hi 6"
  "bit (weave lo hi) 14 = bit lo 7" "bit (weave lo hi) 15 = bit hi 7"
  by (simp_all add: weave_def interleave_def Let_def bit_simps)

lemma weave_bits:
  assumes "k < 8"
  shows "bit (weave lo hi) (2 * k) = bit lo k" and "bit (weave lo hi) (Suc (2 * k)) = bit hi k"
proof -
  have "\<forall>k<8. bit (weave lo hi) (2 * k) = bit lo k \<and> bit (weave lo hi) (Suc (2 * k)) = bit hi k"
    unfolding all_less_8 using weave_table [of lo hi] by (simp add: eval_nat_numeral)
  with assms show "bit (weave lo hi) (2 * k) = bit lo k"
    and "bit (weave lo hi) (Suc (2 * k)) = bit hi k"
    by simp_all
qed

text \<open>\<^bold>\<open>C10.\<close> The three swap stages interleave the two pattern bytes: the two bits of
  the interleaved pattern at position \<open>2k\<close> are the colour of pixel \<open>k\<close>, bit \<open>k\<close> of the low
  byte below bit \<open>k\<close> of the high byte. This is what the compositor reads with
  \<^verbatim>\<open>(pattern >> (k*2)) & 3\<close>.\<close>

theorem weave_pixel:
  assumes "k < 8"
  shows "drop_bit (2 * k) (weave lo hi) AND 3
    = of_bool (bit lo k) OR push_bit 1 (of_bool (bit hi k))"
proof (rule bit_word_eqI)
  fix n assume "n < LENGTH(16)"
  from weave_bits [OF assms, of lo hi]
  show "bit (drop_bit (2 * k) (weave lo hi) AND 3) n
    = bit (of_bool (bit lo k) OR push_bit 1 (of_bool (bit hi k)) :: u16) n"
    by (simp only: mask_eqs) (auto simp add: bit_simps less_2_cases_iff simp del: push_bit_Suc)
qed

theorem weave_pixel_witness:
  "(2::nat) < 8 \<and> drop_bit (2 * 2) (weave 0x04 0x00) AND 3 = 1
   \<and> drop_bit (2 * 2) (weave 0x00 0x04) AND 3 = 2"
  using weave_pixel [of 2 "0x04" "0x00"] weave_pixel [of 2 "0x00" "0x04"]
  by (simp add: bit_simps)

text \<open>\<^bold>\<open>C27.\<close> Interleaving loses nothing: gathering the even bits of the interleaved
  pattern gives back the low byte and gathering the odd bits the high byte.\<close>

theorem weave_roundtrip: "gather 0 (weave lo hi) = lo \<and> gather 1 (weave lo hi) = hi"
proof -
  have "bit (gather 0 (weave lo hi)) n = bit lo n" "bit (gather 1 (weave lo hi)) n = bit hi n"
    if "n < 8" for n
    using that weave_bits [of n lo hi] by (simp_all add: gather_def bit_horner_sum_bit_word_iff)
  then show ?thesis
    by (auto intro!: bit_word_eqI)
qed

end
