(* ===== verification/PPU_Pixel.thy ===== *)
theory PPU_Pixel
  imports PPU_State
begin

text \<open>
  \<^verbatim>\<open>Ppu::render_pixel\<close>: the compositor. For the current column of a visible scanline it
  takes the background pixel from the shift registers, lays the first opaque sprite pixel of
  the render table over it, looks the result up in the palette and stores the colour that
  the host's \<^verbatim>\<open>PutPixel\<close> returns into the frame buffer.
\<close>

section \<open>Background\<close>

text \<open>\<^verbatim>\<open>uint8_t(x+8) < 16\<close>: the first and the last eight columns.\<close>

definition edge :: "nat \<Rightarrow> bool" where
  "edge x \<longleftrightarrow> (x + 8) mod 256 < 16"

text \<open>\<^verbatim>\<open>15 - (((x&7) + fx + 8*!!(x&7)) & 15)\<close>\<close>

definition bg_xpos :: "nat \<Rightarrow> u32 \<Rightarrow> nat" where
  "bg_xpos x fx = 15 - (x mod 8 + unat fx + 8 * (if x mod 8 \<noteq> 0 then 1 else 0)) mod 16"

definition bg_pixel :: "ppu \<Rightarrow> u32 \<times> u32" where
  "bg_pixel s =
     (let x = x_col s; r = reg s;
          showbg = (reg_get ShowBG r \<noteq> 0 \<and> (\<not> edge x \<or> reg_get ShowBG8 r \<noteq> 0));
          xpos = bg_xpos x (latch_get xfine (scroll s))
      in if showbg
         then (let pixel = drop_bit (xpos * 2) (bg_shift_pat s) AND 3;
                   attr = drop_bit (xpos * 2) (bg_shift_attr s) AND (if pixel \<noteq> 0 then 3 else 0)
               in (pixel, attr))
         else if latch_get raw (vaddr s) AND 0x3F00 = 0x3F00 \<and> reg_get ShowBGSP r = 0
         then (latch_get raw (vaddr s), 0)
         else (0, 0))"

section \<open>Sprites\<close>

text \<open>The loop over the render table: the accumulator is the pixel, its attribute and
  whether a sprite-0 hit was registered. The loop ends at the first sprite that has an
  opaque pixel in this column.\<close>

fun sprite_overlay :: "nat \<Rightarrow> sprite list \<Rightarrow> u32 \<times> u32 \<times> bool \<Rightarrow> u32 \<times> u32 \<times> bool" where
  "sprite_overlay x [] acc = acc"
| "sprite_overlay x (sp # rest) (pixel, attr, hit) =
     (let xdiff = (of_nat x - ucast (spr_x sp) :: u32) in
      if 8 \<le> xdiff then sprite_overlay x rest (pixel, attr, hit)
      else
       (let xdiff = (if spr_attr sp AND 0x40 = 0 then 7 - xdiff else xdiff);
            spritepixel = (ucast (drop_bit (unat xdiff * 2) (pattern sp)) AND 3 :: byte)
        in if spritepixel = 0 then sprite_overlay x rest (pixel, attr, hit)
           else
            (let hit = (hit \<or> (x < 255 \<and> pixel \<noteq> 0 \<and> sprindex sp = 0))
             in if spr_attr sp AND 0x20 = 0 \<or> pixel = 0
                then (ucast spritepixel, ucast (spr_attr sp AND 3) + 4, hit)
                else (pixel, attr, hit))))"

text \<open>The colour of a sprite in a column, as a specification: 0 when the column is not
  one of the eight columns of the sprite, else the two bits of its pattern there, mirrored
  unless attribute bit 6 is set.\<close>

definition sprite_pixel :: "nat \<Rightarrow> sprite \<Rightarrow> byte" where
  "sprite_pixel x sp =
     (let xdiff = (of_nat x - ucast (spr_x sp) :: u32) in
      if 8 \<le> xdiff then 0
      else ucast (drop_bit (unat (if spr_attr sp AND 0x40 = 0 then 7 - xdiff else xdiff) * 2)
             (pattern sp)) AND 3)"

section \<open>Composition\<close>

text \<open>The pixel, its attribute and the sprite-0 hit after the sprite loop.\<close>

definition overlay :: "ppu \<Rightarrow> u32 \<times> u32 \<times> bool" where
  "overlay s =
     (let x = x_col s; r = reg s;
          showsp = (reg_get ShowSP r \<noteq> 0 \<and> (\<not> edge x \<or> reg_get ShowSP8 r \<noteq> 0));
          (pixel, attr) = bg_pixel s
      in if showsp then sprite_overlay x (take (sprrenpos s) (OAM3 s)) (pixel, attr, False)
         else (pixel, attr, False))"

text \<open>\<^verbatim>\<open>(attr*4 + pixel) & 0x1F\<close>, the cell of palette RAM that is looked up.\<close>

definition palette_index :: "ppu \<Rightarrow> nat" where
  "palette_index s = (case overlay s of (pixel, attr, hit) \<Rightarrow> unat ((attr * 4 + pixel) AND 0x1F))"

text \<open>The register bank after the loop, and the value handed to the host:
  \<^verbatim>\<open>pixel | (reg.EmpRGB << 6)\<close>.\<close>

definition hit_reg :: "ppu \<Rightarrow> u32" where
  "hit_reg s = (case overlay s of (pixel, attr, hit) \<Rightarrow>
     if hit then reg_set SP0hit 1 (reg s) else reg s)"

definition colour :: "ppu \<Rightarrow> u32" where
  "colour s =
     (let r = hit_reg s;
          pixel = ucast (palette s ! palette_index s)
                    AND (if reg_get Grayscale r \<noteq> 0 then 0x30 else 0x3F)
      in pixel OR push_bit 6 (reg_get EmpRGB r))"

definition render_pixel :: "ppu \<Rightarrow> ppu" where
  "render_pixel s =
     (let pal_pixel = PutPixel (nes s) (x_col s) (scanline s) (colour s) (cycle_counter s)
      in s\<lparr>reg := hit_reg s,
           nes := (nes s)\<lparr>frame_buffer :=
             (frame_buffer (nes s))(nat (scanline s * 256) + x_col s := 0xff000000 OR pal_pixel)\<rparr>\<rparr>)"

section \<open>Ranges\<close>

lemma bg_xpos_less [simp]: "bg_xpos x fx < 16"
  by (simp add: bg_xpos_def)

lemma palette_index_less [simp]: "palette_index s < 32"
  by (simp add: palette_index_def split: prod.splits)

lemma hit_reg_cases: "hit_reg s = reg s \<or> hit_reg s = reg_set SP0hit 1 (reg s)"
  by (simp add: hit_reg_def split: prod.splits)

lemma hit_reg_other [simp]:
  "fst (reg_pos f) + snd (reg_pos f) \<le> 22 \<or> 23 \<le> fst (reg_pos f) \<Longrightarrow>
   reg_get f (hit_reg s) = reg_get f (reg s)"
  using hit_reg_cases [of s] by auto

lemma colour_take_bit: "take_bit 9 (colour s) = colour s"
  unfolding colour_def Let_def
  by (rule bit_word_eqI) (auto simp add: bit_simps reg_defs mask_eqs dest: bit_imp_le_length)

text \<open>\<^bold>\<open>C28.\<close> The value handed to the host for a pixel has nine bits: its low six
  bits are the palette entry that was looked up, without its low four bits in greyscale
  mode, and the three bits above are the emphasis bits of the display control register.\<close>

theorem colour_range:
  "unat (colour s) < 512 \<and> drop_bit 6 (colour s) = reg_get EmpRGB (reg s)
   \<and> take_bit 6 (colour s)
       = ucast (palette s ! palette_index s)
           AND (if reg_get Grayscale (reg s) \<noteq> 0 then 0x30 else 0x3F)"
proof -
  have "unat (take_bit 9 (colour s)) < 2 ^ 9"
    by (simp only: unsigned_take_bit_eq take_bit_nat_def) simp
  moreover have "drop_bit 6 (colour s) = reg_get EmpRGB (reg s)"
    unfolding colour_def Let_def
    by (rule bit_word_eqI)
      (auto simp add: bit_simps reg_defs mask_eqs hit_reg_def split: prod.splits if_splits
        dest: bit_imp_le_length)
  moreover have "reg_get Grayscale (hit_reg s) = reg_get Grayscale (reg s)"
    by simp
  then have "take_bit 6 (colour s) = ucast (palette s ! palette_index s)
      AND (if reg_get Grayscale (reg s) \<noteq> 0 then 0x30 else 0x3F)"
    unfolding colour_def Let_def
    by (intro bit_word_eqI)
      (auto simp add: bit_simps mask_eqs split: if_splits dest: bit_imp_le_length)
  ultimately show ?thesis
    by (simp add: colour_take_bit)
qed

section \<open>The sprite loop\<close>

text \<open>One round of the loop in terms of the colour of the sprite in the column: a
  transparent sprite is skipped; the first opaque one decides and ends the loop.\<close>

lemma sprite_overlay_Cons:
  "sprite_overlay x (sp # rest) (pixel, attr, hit) =
     (if sprite_pixel x sp = 0 then sprite_overlay x rest (pixel, attr, hit)
      else (if spr_attr sp AND 0x20 = 0 \<or> pixel = 0 then ucast (sprite_pixel x sp) else pixel,
            if spr_attr sp AND 0x20 = 0 \<or> pixel = 0 then ucast (spr_attr sp AND 3) + 4 else attr,
            hit \<or> (x < 255 \<and> pixel \<noteq> 0 \<and> sprindex sp = 0)))"
  by (simp add: sprite_pixel_def Let_def)

text \<open>\<^bold>\<open>C22.\<close> The first sprite of the render table that is opaque in the column
  decides the pixel; the sprites after it are not looked at, and a sprite that is
  transparent there, or not in range, has no effect. The deciding sprite gives its colour
  and its palette (4..7) to the pixel unless it is a behind-background sprite over an
  opaque background pixel, which keeps the background; and with no sprite the pixel is
  the background.\<close>

theorem sprite_overlay_first_opaque:
  "sprite_overlay x (sp # rest) acc =
     (if sprite_pixel x sp = 0 then sprite_overlay x rest acc else sprite_overlay x [sp] acc)
   \<and> sprite_overlay x [] acc = acc
   \<and> sprite_overlay x [sp] (pixel, attr, hit) =
     (if sprite_pixel x sp = 0 then (pixel, attr, hit)
      else if spr_attr sp AND 0x20 = 0 \<or> pixel = 0
      then (ucast (sprite_pixel x sp), ucast (spr_attr sp AND 3) + 4,
            hit \<or> (x < 255 \<and> pixel \<noteq> 0 \<and> sprindex sp = 0))
      else (pixel, attr, hit \<or> (x < 255 \<and> sprindex sp = 0)))"
  by (cases acc) (simp add: sprite_overlay_Cons del: sprite_overlay.simps(2))

text \<open>\<^bold>\<open>C21.\<close> A sprite-0 hit is registered only left of column 255, over an opaque
  background pixel, and by an opaque pixel of a sprite that came from entry 0 of OAM.\<close>

theorem sprite0_hit_sound:
  assumes "snd (snd (sprite_overlay x sps (pixel, attr, False)))"
  shows "x < 255 \<and> pixel \<noteq> 0 \<and> (\<exists>sp \<in> set sps. sprindex sp = 0 \<and> sprite_pixel x sp \<noteq> 0)"
  using assms
  by (induction sps) (simp_all add: sprite_overlay_Cons del: sprite_overlay.simps(2) split: if_splits)

theorem sprite0_hit_sound_witness:
  "snd (snd (sprite_overlay 20 [blank_sprite\<lparr>spr_x := 20, pattern := 0xFFFF\<rparr>] (1, 0, False)))
   \<and> (20::nat) < 255 \<and> (1::u32) \<noteq> 0
   \<and> (\<exists>sp \<in> set [blank_sprite\<lparr>spr_x := 20, pattern := 0xFFFF\<rparr>].
         sprindex sp = 0 \<and> sprite_pixel 20 sp \<noteq> 0)"
  using sprite0_hit_sound [of 20 "[blank_sprite\<lparr>spr_x := 20, pattern := 0xFFFF\<rparr>]" 1 0]
  by (simp add: blank_sprite_def Let_def)

section \<open>The frame buffer\<close>

lemma render_pixel_frame [ppu_frame, simp]:
  "scanline (render_pixel s) = scanline s" "x_col (render_pixel s) = x_col s"
  "mode (render_pixel s) = mode s" "VBlankState (render_pixel s) = VBlankState s"
  "scanline_end (render_pixel s) = scanline_end s"
  "even_odd_toggle (render_pixel s) = even_odd_toggle s"
  "palette (render_pixel s) = palette s" "OAM2 (render_pixel s) = OAM2 s"
  "OAM3 (render_pixel s) = OAM3 s" "cycle_counter (render_pixel s) = cycle_counter s"
  "cycles (render_pixel s) = cycles s" "open_bus (render_pixel s) = open_bus s"
  "open_bus_decay_timer (render_pixel s) = open_bus_decay_timer s"
  "sprinpos (render_pixel s) = sprinpos s" "sproutpos (render_pixel s) = sproutpos s"
  "sprrenpos (render_pixel s) = sprrenpos s" "reg (render_pixel s) = hit_reg s"
  "gamepak (nes (render_pixel s)) = gamepak (nes s)"
  "events (nes (render_pixel s)) = events (nes s)"
  "cpu_nmi (nes (render_pixel s)) = cpu_nmi (nes s)"
  "cpu_cycles (nes (render_pixel s)) = cpu_cycles (nes s)"
  by (simp_all add: render_pixel_def Let_def)

lemma render_pixel_arrays_ok [simp]: "arrays_ok (render_pixel s) = arrays_ok s"
  by (simp add: arrays_ok_def)

text \<open>\<^bold>\<open>C8.\<close> On a visible scanline and a visible column the compositor reads palette
  RAM inside its 32 cells and writes one cell of the 256 by 240 frame buffer, the one of
  row \<^verbatim>\<open>scanline\<close> and column \<^verbatim>\<open>x\<close>; the cell gets an opaque alpha byte and every
  other cell keeps its colour.\<close>

theorem render_pixel_safe:
  assumes "arrays_ok s" and "0 \<le> scanline s" and "scanline s < 240" and "x_col s < 256"
  shows "palette_index s < length (palette s)
    \<and> nat (scanline s * 256) + x_col s < 256 * 240
    \<and> (nat (scanline s * 256) + x_col s) div 256 = nat (scanline s)
    \<and> (nat (scanline s * 256) + x_col s) mod 256 = x_col s
    \<and> drop_bit 24 (frame_buffer (nes (render_pixel s)) (nat (scanline s * 256) + x_col s)) = 0xFF
    \<and> (\<forall>j. j \<noteq> nat (scanline s * 256) + x_col s \<longrightarrow>
          frame_buffer (nes (render_pixel s)) j = frame_buffer (nes s) j)"
proof -
  have "drop_bit 24 (0xff000000 OR w) = 0xFF" for w :: u32
    by (rule bit_word_eqI) (auto simp add: bit_simps mask_eqs dest: bit_imp_le_length)
  moreover have "nat (scanline s * 256) = nat (scanline s) * 256"
    using assms(2) by (simp add: nat_mult_distrib)
  moreover have "nat (scanline s) < 240"
    using assms(2,3) by simp
  ultimately show ?thesis
    using assms(1,4) by (simp add: render_pixel_def Let_def arrays_ok_def)
qed

theorem render_pixel_safe_witness:
  "arrays_ok blank_ppu \<and> 0 \<le> scanline blank_ppu \<and> scanline blank_ppu < 240
   \<and> x_col blank_ppu < 256 \<and> palette_index blank_ppu < length (palette blank_ppu)
   \<and> drop_bit 24 (frame_buffer (nes (render_pixel blank_ppu)) 0) = 0xFF"
  using render_pixel_safe [of blank_ppu] by simp

end
