(* ===== verification/PPU_Tick.thy ===== *)
theory PPU_Tick
  imports PPU_Render PPU_Pixel
begin

text \<open>
  The beat driver: \<^verbatim>\<open>Ppu::Tick\<close>, \<^verbatim>\<open>Ppu::TickNTSC\<close> and \<^verbatim>\<open>Ppu::TickPAL\<close>. One call
  runs three beats (PAL: four on every fifth CPU cycle); one beat services the vertical
  blanking state machine, lets the open bus decay, does the graphics work of the column,
  advances the column and the scanline, and notifies the mapper. The body of the loop is
  written twice in the source; the steps the two copies share are one definition each
  here, and \<open>beat_NTSC\<close> and \<open>beat_PAL\<close> compose them in the order of their copy.
\<close>

section \<open>Steps of a beat\<close>

definition vblank_service :: "ppu \<Rightarrow> ppu" where
  "vblank_service s0 =
     (let s = (if VBlankState s0 = - 5 then s0\<lparr>reg := reg_set status 0 (reg s0)\<rparr>
               else if VBlankState s0 = 2 then s0\<lparr>reg := reg_set InVBlank 1 (reg s0)\<rparr>
               else if VBlankState s0 = 0
               then s0\<lparr>nes := (nes s0)\<lparr>cpu_nmi :=
                      (reg_get InVBlank (reg s0) \<noteq> 0 \<and> reg_get NMIenabled (reg s0) \<noteq> 0)\<rparr>\<rparr>
               else s0)
      in if VBlankState s \<noteq> 0
         then s\<lparr>VBlankState := VBlankState s + (if VBlankState s < 0 then 1 else - 1)\<rparr>
         else s)"

definition open_bus_decay :: "ppu \<Rightarrow> ppu" where
  "open_bus_decay s =
     (if open_bus_decay_timer s \<noteq> 0
      then (let s = s\<lparr>open_bus_decay_timer := open_bus_decay_timer s - 1\<rparr>
            in if open_bus_decay_timer s = 0 then s\<lparr>open_bus := 0\<rparr> else s)
      else s)"

definition graphics :: "ppu \<Rightarrow> ppu" where
  "graphics s0 =
     (if scanline s0 < 240
      then (let s = (if reg_get ShowBGSP (reg s0) \<noteq> 0 then rendering_tick s0 else s0)
            in if 0 \<le> scanline s \<and> x_col s < 256 then render_pixel s else s)
      else s0)"

definition pixel_phase :: "ppu \<Rightarrow> ppu" where
  "pixel_phase s =
     (let s = s\<lparr>cycle_counter := cycle_counter s + 1\<rparr>
      in if cycle_counter s = 3 then s\<lparr>cycle_counter := 0\<rparr> else s)"

definition sp0hit_fix :: "ppu \<Rightarrow> ppu" where
  "sp0hit_fix s =
     (if scanline s = 260 \<and> 328 \<le> x_col s \<and> x_col s \<le> 339
      then s\<lparr>reg := reg_set SP0hit 0 (reg s)\<rparr> else s)"

text \<open>The end of the beat: next column, and at the end of the scanline the next scanline.
  \<open>wrap\<close> is the scanline number that wraps to the pre-render line: 261 (NTSC), 311 (PAL).\<close>

definition advance :: "int \<Rightarrow> ppu \<Rightarrow> ppu" where
  "advance wrap s0 =
     (let s = s0\<lparr>x_col := x_col s0 + 1\<rparr>
      in if x_col s = scanline_end s
         then (let s = (if scanline s = 239 then emit OnRender s else s);
                   s = s\<lparr>scanline_end := 341, x_col := 0, scanline := scanline s + 1\<rparr>
               in if scanline s = wrap
                  then s\<lparr>scanline := - 1, even_odd_toggle := \<not> even_odd_toggle s,
                         VBlankState := - 5\<rparr>
                  else if scanline s = 241 then (emit OnVerticalBlank s)\<lparr>VBlankState := 2\<rparr>
                  else s)
         else s)"

definition mapper_tick :: "ppu \<Rightarrow> ppu" where
  "mapper_tick s = (emit MapperPpuTick s)\<lparr>cycles := cycles s + 1\<rparr>"

section \<open>Beats and ticks\<close>

definition beat_NTSC :: "ppu \<Rightarrow> ppu" where
  "beat_NTSC s =
     mapper_tick (advance 261 (sp0hit_fix (pixel_phase (graphics (open_bus_decay (vblank_service s))))))"

definition beat_PAL :: "ppu \<Rightarrow> ppu" where
  "beat_PAL s = mapper_tick (advance 311 (graphics (open_bus_decay (vblank_service s))))"

definition TickNTSC :: "ppu \<Rightarrow> ppu" where
  "TickNTSC s = (beat_NTSC ^^ 3) s"

text \<open>\<^verbatim>\<open>tick_count\<close>: a fourth beat on every fifth CPU cycle.\<close>

definition pal_beats :: "nat \<Rightarrow> nat" where
  "pal_beats c = (if c mod 5 = 4 then 4 else 3)"

definition TickPAL :: "ppu \<Rightarrow> ppu" where
  "TickPAL s = (beat_PAL ^^ pal_beats (cpu_cycles (nes s))) s"

definition Tick :: "ppu \<Rightarrow> ppu" where
  "Tick s = (case mode s of NTSC \<Rightarrow> TickNTSC s | PAL \<Rightarrow> TickPAL s)"

section \<open>Invariants and observations\<close>

text \<open>The scanline that wraps to the pre-render line, by television system.\<close>

definition wrap_line :: "tv_mode \<Rightarrow> int" where
  "wrap_line m = (case m of NTSC \<Rightarrow> 261 | PAL \<Rightarrow> 311)"

text \<open>The beam is inside the frame: the scanline is between the pre-render line and the
  last line of vertical blanking, the column is before the end of the scanline, and the
  scanline has 341 columns, or 340 on a pre-render line that has passed column 337.\<close>

definition timing_ok :: "int \<Rightarrow> ppu \<Rightarrow> bool" where
  "timing_ok wrap s \<longleftrightarrow> - 1 \<le> scanline s \<and> scanline s < wrap \<and> x_col s < scanline_end s
     \<and> (scanline_end s = 341 \<or> scanline_end s = 340 \<and> scanline s = - 1 \<and> 337 \<le> x_col s)"

definition vblank_ok :: "ppu \<Rightarrow> bool" where
  "vblank_ok s \<longleftrightarrow> - 5 \<le> VBlankState s \<and> VBlankState s \<le> 2"

definition ppu_ok :: "ppu \<Rightarrow> bool" where
  "ppu_ok s \<longleftrightarrow> arrays_ok s \<and> timing_ok (wrap_line (mode s)) s \<and> vblank_ok s"

text \<open>The beats of one call of \<^verbatim>\<open>Tick\<close>, and the mapper notifications so far.\<close>

definition beats_of :: "ppu \<Rightarrow> nat" where
  "beats_of s = (case mode s of NTSC \<Rightarrow> 3 | PAL \<Rightarrow> pal_beats (cpu_cycles (nes s)))"

definition mapper_ticks :: "ppu \<Rightarrow> nat" where
  "mapper_ticks s = length (filter (\<lambda>e. e = MapperPpuTick) (events (nes s)))"

text \<open>The open bus as the bus accessports see it, a decay timer and a latched byte, and
  what one beat does to it, as a specification.\<close>

definition bus_pair :: "ppu \<Rightarrow> nat \<times> byte" where
  "bus_pair s = (open_bus_decay_timer s, open_bus s)"

definition decay :: "nat \<times> byte \<Rightarrow> nat \<times> byte" where
  "decay tb = (case tb of (t, b) \<Rightarrow> (t - 1, if t = 1 then 0 else b))"

lemmas beat_defs = beat_NTSC_def beat_PAL_def mapper_tick_def advance_def sp0hit_fix_def
  pixel_phase_def graphics_def open_bus_decay_def vblank_service_def

lemmas step_defs = vblank_service_def open_bus_decay_def pixel_phase_def sp0hit_fix_def
  advance_def mapper_tick_def Let_def

section \<open>Properties of every step\<close>

text \<open>A property that every step of a beat preserves is preserved by the beat, and by a
  call of \<^verbatim>\<open>Tick\<close>.\<close>

lemma graphics_preserves:
  assumes "\<And>s. P s \<Longrightarrow> P (rendering_tick s)" "\<And>s. P s \<Longrightarrow> P (render_pixel s)"
  shows "P s \<Longrightarrow> P (graphics s)"
  by (simp add: graphics_def Let_def assms)

lemma beat_NTSC_preserves:
  assumes "\<And>s. P s \<Longrightarrow> P (vblank_service s)" "\<And>s. P s \<Longrightarrow> P (open_bus_decay s)"
    and "\<And>s. P s \<Longrightarrow> P (rendering_tick s)" "\<And>s. P s \<Longrightarrow> P (render_pixel s)"
    and "\<And>s. P s \<Longrightarrow> P (pixel_phase s)" "\<And>s. P s \<Longrightarrow> P (sp0hit_fix s)"
    and "\<And>s. P s \<Longrightarrow> P (advance 261 s)" "\<And>s. P s \<Longrightarrow> P (mapper_tick s)"
  shows "P s \<Longrightarrow> P (beat_NTSC s)"
  unfolding beat_NTSC_def by (intro assms graphics_preserves [where P = P])

lemma beat_PAL_preserves:
  assumes "\<And>s. P s \<Longrightarrow> P (vblank_service s)" "\<And>s. P s \<Longrightarrow> P (open_bus_decay s)"
    and "\<And>s. P s \<Longrightarrow> P (rendering_tick s)" "\<And>s. P s \<Longrightarrow> P (render_pixel s)"
    and "\<And>s. P s \<Longrightarrow> P (advance 311 s)" "\<And>s. P s \<Longrightarrow> P (mapper_tick s)"
  shows "P s \<Longrightarrow> P (beat_PAL s)"
  unfolding beat_PAL_def by (intro assms graphics_preserves [where P = P])

lemma Tick_funpow: "Tick s = ((case mode s of NTSC \<Rightarrow> beat_NTSC | PAL \<Rightarrow> beat_PAL) ^^ beats_of s) s"
  by (simp add: Tick_def TickNTSC_def TickPAL_def beats_of_def split: tv_mode.splits)

lemma step_frame [ppu_frame, simp]:
  "scanline (vblank_service s) = scanline s" "x_col (vblank_service s) = x_col s"
  "scanline_end (vblank_service s) = scanline_end s"
  "scanline (open_bus_decay s) = scanline s" "x_col (open_bus_decay s) = x_col s"
  "scanline_end (open_bus_decay s) = scanline_end s"
  "VBlankState (open_bus_decay s) = VBlankState s" "reg (open_bus_decay s) = reg s"
  "nes (open_bus_decay s) = nes s"
  "scanline (pixel_phase s) = scanline s" "x_col (pixel_phase s) = x_col s"
  "scanline_end (pixel_phase s) = scanline_end s"
  "VBlankState (pixel_phase s) = VBlankState s" "reg (pixel_phase s) = reg s"
  "nes (pixel_phase s) = nes s"
  "scanline (mapper_tick s) = scanline s" "x_col (mapper_tick s) = x_col s"
  "scanline_end (mapper_tick s) = scanline_end s"
  "VBlankState (mapper_tick s) = VBlankState s" "reg (mapper_tick s) = reg s"
  "cpu_nmi (nes (mapper_tick s)) = cpu_nmi (nes s)" "cycles (mapper_tick s) = cycles s + 1"
  "reg_get InVBlank (reg (sp0hit_fix s)) = reg_get InVBlank (reg s)"
  "cpu_nmi (nes (sp0hit_fix s)) = cpu_nmi (nes s)"
  "reg (advance w s) = reg s" "cpu_nmi (nes (advance w s)) = cpu_nmi (nes s)"
  by (simp_all add: step_defs)

section \<open>The beam stays inside the frame\<close>

lemma rendering_tick_timing_ok: "timing_ok w s \<Longrightarrow> timing_ok w (rendering_tick s)"
  by (erule rendering_tick_preserves [rotated -1]) (auto simp add: timing_ok_def slot_defs)

lemma beat_NTSC_timing_ok: "timing_ok 261 s \<Longrightarrow> timing_ok 261 (beat_NTSC s)"
  by (erule beat_NTSC_preserves [rotated -1];
      (erule rendering_tick_timing_ok | auto simp add: timing_ok_def step_defs))

lemma beat_PAL_timing_ok: "timing_ok 311 s \<Longrightarrow> timing_ok 311 (beat_PAL s)"
  by (erule beat_PAL_preserves [rotated -1];
      (erule rendering_tick_timing_ok | auto simp add: timing_ok_def step_defs))

lemma beat_vblank_ok:
  "vblank_ok s \<Longrightarrow> vblank_ok (beat_NTSC s)" "vblank_ok s \<Longrightarrow> vblank_ok (beat_PAL s)"
  by (erule beat_NTSC_preserves [rotated -1] beat_PAL_preserves [rotated -1],
     auto simp add: vblank_ok_def step_defs)+

lemma beat_arrays_ok:
  "arrays_ok s \<Longrightarrow> arrays_ok (beat_NTSC s)" "arrays_ok s \<Longrightarrow> arrays_ok (beat_PAL s)"
  by (erule beat_NTSC_preserves [rotated -1] beat_PAL_preserves [rotated -1];
      (erule rendering_tick_arrays_ok | auto simp add: arrays_ok_def step_defs))+

lemma beat_counters_ok:
  "counters_ok s \<Longrightarrow> counters_ok (beat_NTSC s)" "counters_ok s \<Longrightarrow> counters_ok (beat_PAL s)"
  by (erule beat_NTSC_preserves [rotated -1] beat_PAL_preserves [rotated -1];
      (erule rendering_tick_counters_ok | auto simp add: counters_ok_def step_defs))+

lemma beat_mode [simp]: "mode (beat_NTSC s) = mode s" "mode (beat_PAL s) = mode s"
proof -
  have "mode s' = mode s \<Longrightarrow> mode (beat_NTSC s') = mode s" for s'
    by (erule beat_NTSC_preserves [rotated -1]) (auto simp add: step_defs)
  moreover have "mode s' = mode s \<Longrightarrow> mode (beat_PAL s') = mode s" for s'
    by (erule beat_PAL_preserves [rotated -1]) (auto simp add: step_defs)
  ultimately show "mode (beat_NTSC s) = mode s" "mode (beat_PAL s) = mode s"
    by simp_all
qed

lemma Tick_mode [simp]: "mode (Tick s) = mode s"
  unfolding Tick_funpow by (cases "mode s") (simp_all add: funpow_frame)

lemma Tick_arrays_ok: "arrays_ok s \<Longrightarrow> arrays_ok (Tick s)"
  unfolding Tick_funpow by (cases "mode s") (simp_all add: funpow_invariant beat_arrays_ok)

lemma Tick_counters_ok: "counters_ok s \<Longrightarrow> counters_ok (Tick s)"
  unfolding Tick_funpow by (cases "mode s") (simp_all add: funpow_invariant beat_counters_ok)

lemma Tick_vblank_ok: "vblank_ok s \<Longrightarrow> vblank_ok (Tick s)"
  unfolding Tick_funpow by (cases "mode s") (simp_all add: funpow_invariant beat_vblank_ok)

lemma Tick_timing_ok:
  "timing_ok (wrap_line (mode s)) s \<Longrightarrow> timing_ok (wrap_line (mode s)) (Tick s)"
  unfolding Tick_funpow
  by (cases "mode s")
    (simp_all add: wrap_line_def funpow_invariant beat_NTSC_timing_ok beat_PAL_timing_ok)

lemma Tick_ppu_ok: "ppu_ok s \<Longrightarrow> ppu_ok (Tick s)"
  by (simp add: ppu_ok_def Tick_arrays_ok Tick_timing_ok Tick_vblank_ok)

lemma blank_ppu_ok [simp]: "ppu_ok blank_ppu"
  by (simp add: ppu_ok_def timing_ok_def vblank_ok_def wrap_line_def)

text \<open>\<^bold>\<open>C2.\<close> A call of \<^verbatim>\<open>Tick\<close>, in either television system, keeps the beam inside
  the frame (scanline from -1 to 260, PAL 310; column before the end of the scanline; a
  scanline of 341 columns, or of 340 on a pre-render line beyond column 337), keeps the
  vertical-blanking countdown between -5 and 2, keeps the sizes of the arrays and the
  ranges of the sprite counters, and does not change the television system.\<close>

theorem Tick_invariant:
  assumes "ppu_ok s" and "counters_ok s"
  shows "ppu_ok (Tick s) \<and> counters_ok (Tick s) \<and> mode (Tick s) = mode s"
  using assms by (simp add: Tick_ppu_ok Tick_counters_ok)

theorem Tick_invariant_witness:
  "ppu_ok blank_ppu \<and> counters_ok blank_ppu \<and> ppu_ok (Tick blank_ppu)
   \<and> counters_ok (Tick blank_ppu) \<and> mode (Tick blank_ppu) = NTSC"
  using Tick_invariant [of blank_ppu] by simp

section \<open>Vertical blanking\<close>

lemma rendering_tick_InVBlank [simp]:
  "reg_get InVBlank (reg (rendering_tick s)) = reg_get InVBlank (reg s)"
proof -
  have "reg_get InVBlank (reg (rendering_tick s')) = c" if "reg_get InVBlank (reg s') = c" for s' c
    using that by (rule rendering_tick_preserves [rotated -1]) (simp_all add: slot_defs)
  then show ?thesis
    by simp
qed

lemma graphics_vblank [simp]:
  "reg_get InVBlank (reg (graphics s)) = reg_get InVBlank (reg s)"
  "cpu_nmi (nes (graphics s)) = cpu_nmi (nes s)"
  "VBlankState (graphics s) = VBlankState s"
  by (simp_all add: graphics_def Let_def)

lemma vblank_service_flag:
  "reg_get InVBlank (reg (vblank_service s))
     = (if VBlankState s = - 5 then 0 else if VBlankState s = 2 then 1
        else reg_get InVBlank (reg s))"
  "cpu_nmi (nes (vblank_service s))
     = (if VBlankState s = 0
        then reg_get InVBlank (reg s) \<noteq> 0 \<and> reg_get NMIenabled (reg s) \<noteq> 0
        else cpu_nmi (nes s))"
  by (simp_all add: vblank_service_def)

text \<open>The three states of the countdown in which something happens.\<close>

lemma vblank_service_cases:
  "VBlankState s = 2 \<Longrightarrow>
     vblank_service s = s\<lparr>reg := reg_set InVBlank 1 (reg s), VBlankState := 1\<rparr>"
  "VBlankState s = 1 \<Longrightarrow> vblank_service s = s\<lparr>VBlankState := 0\<rparr>"
  "VBlankState s = 0 \<Longrightarrow> vblank_service s = s\<lparr>nes := (nes s)\<lparr>cpu_nmi :=
     (reg_get InVBlank (reg s) \<noteq> 0 \<and> reg_get NMIenabled (reg s) \<noteq> 0)\<rparr>\<rparr>"
  "VBlankState s = - 5 \<Longrightarrow>
     vblank_service s = s\<lparr>reg := reg_set status 0 (reg s), VBlankState := - 4\<rparr>"
  by (simp_all add: vblank_service_def)

text \<open>A beat on a scanline of vertical blanking, away from the end of the scanline.\<close>

lemma beat_NTSC_idle:
  assumes "240 \<le> scanline s" "scanline s \<noteq> 260" "Suc (x_col s) \<noteq> scanline_end s"
  shows "beat_NTSC s
    = mapper_tick ((pixel_phase (open_bus_decay (vblank_service s)))\<lparr>x_col := x_col s + 1\<rparr>)"
  using assms by (simp add: beat_NTSC_def graphics_def sp0hit_fix_def advance_def Let_def)

lemma beat_vblank [simp]:
  "reg_get InVBlank (reg (beat_NTSC s)) = reg_get InVBlank (reg (vblank_service s))"
  "cpu_nmi (nes (beat_NTSC s)) = cpu_nmi (nes (vblank_service s))"
  "reg_get InVBlank (reg (beat_PAL s)) = reg_get InVBlank (reg (vblank_service s))"
  "cpu_nmi (nes (beat_PAL s)) = cpu_nmi (nes (vblank_service s))"
  by (simp_all add: beat_NTSC_def beat_PAL_def)

text \<open>\<^bold>\<open>C11.\<close> In every beat, of either television system, the vertical-blanking flag
  is cleared when the countdown is at -5, set when it is at 2 and otherwise kept, whatever
  the graphics work of the beat does to the rest of the status register; and the
  interrupt line of the CPU is driven only when the countdown is at 0, with the
  conjunction of the flag and the NMI enable bit.\<close>

theorem beat_vblank_flag:
  "reg_get InVBlank (reg (beat_NTSC s))
     = (if VBlankState s = - 5 then 0 else if VBlankState s = 2 then 1
        else reg_get InVBlank (reg s))
   \<and> reg_get InVBlank (reg (beat_PAL s)) = reg_get InVBlank (reg (beat_NTSC s))
   \<and> cpu_nmi (nes (beat_NTSC s))
     = (if VBlankState s = 0
        then reg_get InVBlank (reg s) \<noteq> 0 \<and> reg_get NMIenabled (reg s) \<noteq> 0
        else cpu_nmi (nes s))
   \<and> cpu_nmi (nes (beat_PAL s)) = cpu_nmi (nes (beat_NTSC s))"
  by (simp add: vblank_service_flag)

text \<open>\<^bold>\<open>C5.\<close> The call of \<^verbatim>\<open>Tick\<close> that follows the start of scanline 241 raises
  the vertical-blanking flag in its first beat and drives the interrupt line in its third:
  at its end the flag is set, the line carries the NMI enable bit and the countdown has
  come to rest.\<close>

theorem vblank_raise:
  assumes "scanline s = 241" "x_col s = 0" "scanline_end s = 341" "VBlankState s = 2"
  shows "reg_get InVBlank (reg (TickNTSC s)) = 1
    \<and> cpu_nmi (nes (TickNTSC s)) = (reg_get NMIenabled (reg s) \<noteq> 0)
    \<and> VBlankState (TickNTSC s) = 0 \<and> x_col (TickNTSC s) = 3"
proof -
  let ?s1 = "beat_NTSC s" and ?s2 = "beat_NTSC (beat_NTSC s)"
  have 1: "scanline ?s1 = 241" "x_col ?s1 = 1" "scanline_end ?s1 = 341" "VBlankState ?s1 = 1"
    "reg ?s1 = reg_set InVBlank 1 (reg s)"
    using assms by (simp_all add: beat_NTSC_idle vblank_service_cases)
  have 2: "scanline ?s2 = 241" "x_col ?s2 = 2" "scanline_end ?s2 = 341" "VBlankState ?s2 = 0"
    "reg ?s2 = reg_set InVBlank 1 (reg s)"
    using 1 by (simp_all add: beat_NTSC_idle vblank_service_cases)
  show ?thesis
    using 2 by (simp add: TickNTSC_def eval_nat_numeral beat_NTSC_idle vblank_service_cases)
qed

theorem vblank_raise_witness:
  "reg_get InVBlank (reg (TickNTSC (blank_ppu\<lparr>scanline := 241, VBlankState := 2,
      reg := reg_set NMIenabled 1 0\<rparr>))) = 1
   \<and> cpu_nmi (nes (TickNTSC (blank_ppu\<lparr>scanline := 241, VBlankState := 2,
      reg := reg_set NMIenabled 1 0\<rparr>)))"
  using vblank_raise [of "blank_ppu\<lparr>scanline := 241, VBlankState := 2,
      reg := reg_set NMIenabled 1 0\<rparr>"]
  by simp

section \<open>End of the scanline\<close>

text \<open>\<^bold>\<open>C13.\<close> The beat that reaches the end of the scanline starts the next scanline at
  column 0 with 341 columns; the scanline after the last one is the pre-render line -1,
  where the frame parity flips and the countdown that clears the status flags starts;
  leaving scanline 239 announces the finished picture, and entering scanline 241 announces
  vertical blanking and starts the countdown that raises the flag.\<close>

theorem advance_line_end:
  assumes "Suc (x_col s) = scanline_end s"
  shows "x_col (advance w s) = 0 \<and> scanline_end (advance w s) = 341
    \<and> scanline (advance w s) = (if scanline s + 1 = w then - 1 else scanline s + 1)
    \<and> VBlankState (advance w s)
        = (if scanline s + 1 = w then - 5 else if scanline s = 240 then 2 else VBlankState s)
    \<and> even_odd_toggle (advance w s)
        = (if scanline s + 1 = w then \<not> even_odd_toggle s else even_odd_toggle s)
    \<and> events (nes (advance w s))
        = events (nes s) @ (if scanline s = 239 then [OnRender] else [])
            @ (if scanline s = 240 \<and> w \<noteq> 241 then [OnVerticalBlank] else [])"
  using assms by (simp add: advance_def Let_def)

theorem advance_line_end_witness:
  "scanline (advance 261 (blank_ppu\<lparr>scanline := 240, x_col := 340\<rparr>)) = 241
   \<and> VBlankState (advance 261 (blank_ppu\<lparr>scanline := 240, x_col := 340\<rparr>)) = 2
   \<and> events (nes (advance 261 (blank_ppu\<lparr>scanline := 240, x_col := 340\<rparr>)))
       = [OnVerticalBlank]"
  using advance_line_end [of "blank_ppu\<lparr>scanline := 240, x_col := 340\<rparr>" 261]
  by simp

section \<open>Open bus\<close>

text \<open>A beat acts on the open bus as the specification says, and does nothing else to it.\<close>

lemma open_bus_decay_pair: "bus_pair (open_bus_decay s) = decay (bus_pair s)"
  by (simp add: bus_pair_def decay_def open_bus_decay_def Let_def)

lemma bus_pair_steps [simp]:
  "bus_pair (vblank_service s) = bus_pair s" "bus_pair (graphics s) = bus_pair s"
  "bus_pair (pixel_phase s) = bus_pair s" "bus_pair (sp0hit_fix s) = bus_pair s"
  "bus_pair (advance w s) = bus_pair s" "bus_pair (mapper_tick s) = bus_pair s"
  by (simp_all add: bus_pair_def step_defs graphics_def)

lemma beat_bus_pair [simp]:
  "bus_pair (beat_NTSC s) = decay (bus_pair s)" "bus_pair (beat_PAL s) = decay (bus_pair s)"
  by (simp_all add: beat_NTSC_def beat_PAL_def open_bus_decay_pair)

lemma decay_funpow: "(decay ^^ k) (t, b) = (t - k, if 0 < t \<and> t \<le> k then 0 else b)"
  by (induction k) (auto simp add: decay_def)

lemma beats_bus_pair:
  "bus_pair ((beat_NTSC ^^ k) s) = (decay ^^ k) (bus_pair s)"
  "bus_pair ((beat_PAL ^^ k) s) = (decay ^^ k) (bus_pair s)"
  by (induction k) simp_all

lemma beats_open_bus:
  "open_bus_decay_timer ((beat_NTSC ^^ k) s) = open_bus_decay_timer s - k"
  "open_bus ((beat_NTSC ^^ k) s)
     = (if 0 < open_bus_decay_timer s \<and> open_bus_decay_timer s \<le> k then 0 else open_bus s)"
  "open_bus_decay_timer ((beat_PAL ^^ k) s) = open_bus_decay_timer s - k"
  "open_bus ((beat_PAL ^^ k) s)
     = (if 0 < open_bus_decay_timer s \<and> open_bus_decay_timer s \<le> k then 0 else open_bus s)"
proof -
  let ?r = "(open_bus_decay_timer s - k,
    if 0 < open_bus_decay_timer s \<and> open_bus_decay_timer s \<le> k then 0 else open_bus s)"
  have "bus_pair ((beat_NTSC ^^ k) s) = ?r" "bus_pair ((beat_PAL ^^ k) s) = ?r"
    by (simp_all only: beats_bus_pair bus_pair_def [of s] decay_funpow)
  then show "open_bus_decay_timer ((beat_NTSC ^^ k) s) = open_bus_decay_timer s - k"
    "open_bus ((beat_NTSC ^^ k) s)
       = (if 0 < open_bus_decay_timer s \<and> open_bus_decay_timer s \<le> k then 0 else open_bus s)"
    "open_bus_decay_timer ((beat_PAL ^^ k) s) = open_bus_decay_timer s - k"
    "open_bus ((beat_PAL ^^ k) s)
       = (if 0 < open_bus_decay_timer s \<and> open_bus_decay_timer s \<le> k then 0 else open_bus s)"
    by (simp_all add: bus_pair_def)
qed

text \<open>\<^bold>\<open>C14.\<close> Beats implement the decay of the open bus: one beat acts on the timer and
  the latched byte as the specification \<open>decay\<close> does, so over \<open>k\<close> beats the timer
  counts down by \<open>k\<close> and stops at 0, and the latched byte is kept until the beat in which
  the timer reaches 0 and is 0 from then on.\<close>

theorem open_bus_decays:
  "bus_pair (beat_NTSC s) = decay (bus_pair s)
   \<and> open_bus_decay_timer ((beat_NTSC ^^ k) s) = open_bus_decay_timer s - k
   \<and> open_bus ((beat_NTSC ^^ k) s)
       = (if 0 < open_bus_decay_timer s \<and> open_bus_decay_timer s \<le> k then 0 else open_bus s)"
  by (simp add: beats_open_bus)

section \<open>Counting beats\<close>

lemma mapper_ticks_steps [simp]:
  "mapper_ticks (vblank_service s) = mapper_ticks s"
  "mapper_ticks (open_bus_decay s) = mapper_ticks s"
  "mapper_ticks (graphics s) = mapper_ticks s"
  "mapper_ticks (pixel_phase s) = mapper_ticks s"
  "mapper_ticks (sp0hit_fix s) = mapper_ticks s"
  "mapper_ticks (advance w s) = mapper_ticks s"
  "mapper_ticks (mapper_tick s) = mapper_ticks s + 1"
  by (simp_all add: mapper_ticks_def step_defs graphics_def)

lemma cycles_steps [simp]:
  "cycles (vblank_service s) = cycles s" "cycles (open_bus_decay s) = cycles s"
  "cycles (graphics s) = cycles s" "cycles (pixel_phase s) = cycles s"
  "cycles (sp0hit_fix s) = cycles s" "cycles (advance w s) = cycles s"
  by (simp_all add: step_defs graphics_def)

lemma beat_counts [simp]:
  "cycles (beat_NTSC s) = cycles s + 1" "mapper_ticks (beat_NTSC s) = mapper_ticks s + 1"
  "cycles (beat_PAL s) = cycles s + 1" "mapper_ticks (beat_PAL s) = mapper_ticks s + 1"
  by (simp_all add: beat_NTSC_def beat_PAL_def)

lemma funpow_counts:
  "cycles ((beat_NTSC ^^ n) s) = cycles s + of_nat n"
  "mapper_ticks ((beat_NTSC ^^ n) s) = mapper_ticks s + n"
  "cycles ((beat_PAL ^^ n) s) = cycles s + of_nat n"
  "mapper_ticks ((beat_PAL ^^ n) s) = mapper_ticks s + n"
  by (induction n) simp_all

text \<open>\<^bold>\<open>C29.\<close> A call of \<^verbatim>\<open>Tick\<close> runs three beats, or under PAL four on every fifth
  CPU cycle: it adds that number to the beat counter, which wraps at its width, and
  notifies the mapper that many times.\<close>

theorem Tick_counts:
  "cycles (Tick s) = cycles s + of_nat (beats_of s)
   \<and> mapper_ticks (Tick s) = mapper_ticks s + beats_of s"
  unfolding Tick_funpow by (cases "mode s") (simp_all add: funpow_counts)

text \<open>\<^bold>\<open>C30.\<close> Under PAL any five consecutive CPU cycles get sixteen beats: 3.2 beats per
  CPU cycle.\<close>

theorem pal_beats_ratio: "(\<Sum>i<5. pal_beats (c + i)) = 16"
proof -
  have "{..<5::nat} = {0, 1, 2, 3, 4}"
    by auto
  then have s: "(\<Sum>i<5. pal_beats (c + i))
    = pal_beats c + pal_beats (c + 1) + pal_beats (c + 2) + pal_beats (c + 3) + pal_beats (c + 4)"
    by simp
  have e: "pal_beats (c + i) = (if (c mod 5 + i) mod 5 = 4 then 4 else 3)" for i
    by (simp add: pal_beats_def mod_add_left_eq)
  have "c mod 5 < 5"
    by simp
  then consider "c mod 5 = 0" | "c mod 5 = 1" | "c mod 5 = 2" | "c mod 5 = 3" | "c mod 5 = 4"
    by arith
  then show ?thesis
    unfolding s
    by cases (simp_all only: e [of 1] e [of 2] e [of 3] e [of 4] pal_beats_def [of c], simp_all)
qed

end
