(* ===== verification/PPU_Beam.thy ===== *)
theory PPU_Beam
  imports PPU_Tick
begin

text \<open>
  The beam: where on the screen the PPU is, as a machine of its own. Of the whole state a
  beat needs only the scanline, the column, the length of the scanline, the parity of the
  frame and whether the pre-render line may be shortened to know where the next beat is;
  \<open>beam_of\<close> takes these five out of the state and \<open>beam_step\<close> is one beat on them, as a
  specification. The theory shows that a beat of either television system implements
  \<open>beam_step\<close>, computes the beam after any number of beats inside a frame, and derives
  the length of a scanline and of a frame in beats.
\<close>

section \<open>The abstract beam\<close>

record beam =
  b_line :: int
  b_col :: nat
  b_end :: nat
  b_odd :: bool
  b_short :: bool

definition beam_of :: "ppu \<Rightarrow> beam" where
  "beam_of s = \<lparr>b_line = scanline s, b_col = x_col s, b_end = scanline_end s,
     b_odd = even_odd_toggle s, b_short = (reg_get ShowBG (reg s) \<noteq> 0 \<and> mode s = NTSC)\<rparr>"

definition beam_step :: "int \<Rightarrow> beam \<Rightarrow> beam" where
  "beam_step w b =
     (let e = (if b_col b = 337 \<and> b_line b = - 1 \<and> b_odd b \<and> b_short b then 340 else b_end b) in
      if Suc (b_col b) = e
      then b\<lparr>b_col := 0, b_end := 341,
             b_line := (if b_line b + 1 = w then - 1 else b_line b + 1),
             b_odd := (if b_line b + 1 = w then \<not> b_odd b else b_odd b)\<rparr>
      else b\<lparr>b_col := Suc (b_col b), b_end := e\<rparr>)"

text \<open>The pre-render line of an odd frame with the background enabled (NTSC) has 340
  columns; every other scanline has 341.\<close>

definition short_line :: "beam \<Rightarrow> bool" where
  "short_line b \<longleftrightarrow> b_line b = - 1 \<and> b_odd b \<and> b_short b"

definition line_beats :: "beam \<Rightarrow> nat" where
  "line_beats b = (if short_line b then 340 else 341)"

definition line_start :: "beam \<Rightarrow> bool" where
  "line_start b \<longleftrightarrow> b_col b = 0 \<and> b_end b = 341"

text \<open>The beam \<open>k\<close> beats into the scanline that starts at \<open>b\<close>, and at the start of the
  scanline after it.\<close>

definition in_line :: "beam \<Rightarrow> nat \<Rightarrow> beam" where
  "in_line b k = b\<lparr>b_col := k, b_end := (if short_line b \<and> 337 < k then 340 else 341)\<rparr>"

definition next_line :: "int \<Rightarrow> beam \<Rightarrow> beam" where
  "next_line w b = b\<lparr>b_col := 0, b_end := 341,
     b_line := (if b_line b + 1 = w then - 1 else b_line b + 1),
     b_odd := (if b_line b + 1 = w then \<not> b_odd b else b_odd b)\<rparr>"

text \<open>The same in terms of the state: the number of beats of the pre-render line that
  starts in state \<open>s\<close>.\<close>

definition prerender_beats :: "ppu \<Rightarrow> nat" where
  "prerender_beats s =
     (if even_odd_toggle s \<and> reg_get ShowBG (reg s) \<noteq> 0 \<and> mode s = NTSC then 340 else 341)"

section \<open>A beat implements the beam step\<close>

lemma ShowBG_ShowBGSP: "reg_get ShowBG r \<noteq> 0 \<Longrightarrow> reg_get ShowBGSP r \<noteq> 0"
proof -
  have "reg_get ShowBG r = bf_get 0 1 (reg_get ShowBGSP r)"
    by (rule bit_word_eqI) (auto simp add: reg_defs bit_simps)
  then show "reg_get ShowBG r \<noteq> 0 \<Longrightarrow> reg_get ShowBGSP r \<noteq> 0"
    by (cases "reg_get ShowBGSP r = 0") simp_all
qed

lemma rendering_tick_reg_other:
  assumes "fst (reg_pos f) + snd (reg_pos f) \<le> 21
    \<or> 22 \<le> fst (reg_pos f) \<and> fst (reg_pos f) + snd (reg_pos f) \<le> 24"
  shows "reg_get f (reg (rendering_tick s)) = reg_get f (reg s)"
proof -
  have "reg_get f (reg (rendering_tick s')) = c" if "reg_get f (reg s') = c" for s' c
    using that assms by (elim rendering_tick_preserves [rotated -1]) (auto simp add: slot_defs)
  then show ?thesis
    by simp
qed

lemma sprite_eval_scanline_end [simp]: "scanline_end (sprite_eval s) = scanline_end s"
proof -
  have "scanline_end (sprite_eval s') = c" if "scanline_end s' = c" for s' c
    using that by (rule sprite_eval_preserves [rotated -1]) (simp_all add: slot_defs)
  then show ?thesis
    by simp
qed

lemma bg_fetch_scanline_end:
  "scanline_end (bg_fetch s)
     = (if x_col s = 337 \<and> scanline s = - 1 \<and> even_odd_toggle s
          \<and> reg_get ShowBG (reg s) \<noteq> 0 \<and> mode s = NTSC
        then 340 else scanline_end s)"
proof -
  have "x_col s = 337 \<Longrightarrow> x_col s mod 8 = 1"
    by simp
  moreover have "x_col s mod 8 = 1 \<Longrightarrow> bg_fetch s = fetch_nametable s"
    by (simp add: bg_fetch_def)
  moreover have "x_col s mod 8 \<noteq> 1 \<Longrightarrow> scanline_end (bg_fetch s) = scanline_end s"
    by (simp add: bg_fetch_def slot_defs)
  ultimately show ?thesis
    by (cases "x_col s mod 8 = 1") (auto simp add: fetch_nametable_def Let_def)
qed

lemma rendering_tick_scanline_end:
  "scanline_end (rendering_tick s)
     = (if x_col s = 337 \<and> scanline s = - 1 \<and> even_odd_toggle s
          \<and> reg_get ShowBG (reg s) \<noteq> 0 \<and> mode s = NTSC
        then 340 else scanline_end s)"
  by (simp add: rendering_tick_def bg_fetch_scanline_end)

lemma graphics_beam:
  "scanline (graphics s) = scanline s" "x_col (graphics s) = x_col s"
  "even_odd_toggle (graphics s) = even_odd_toggle s" "mode (graphics s) = mode s"
  "reg_get ShowBG (reg (graphics s)) = reg_get ShowBG (reg s)"
  "scanline_end (graphics s)
     = (if x_col s = 337 \<and> scanline s = - 1 \<and> even_odd_toggle s
          \<and> reg_get ShowBG (reg s) \<noteq> 0 \<and> mode s = NTSC
        then 340 else scanline_end s)"
  by (auto simp add: graphics_def Let_def rendering_tick_reg_other ShowBG_ShowBGSP
      rendering_tick_scanline_end)

lemma head_beam [simp]:
  "even_odd_toggle (vblank_service s) = even_odd_toggle s" "mode (vblank_service s) = mode s"
  "reg_get ShowBG (reg (vblank_service s)) = reg_get ShowBG (reg s)"
  "even_odd_toggle (open_bus_decay s) = even_odd_toggle s" "mode (open_bus_decay s) = mode s"
  "even_odd_toggle (pixel_phase s) = even_odd_toggle s" "mode (pixel_phase s) = mode s"
  "scanline (sp0hit_fix s) = scanline s" "x_col (sp0hit_fix s) = x_col s"
  "scanline_end (sp0hit_fix s) = scanline_end s"
  "even_odd_toggle (sp0hit_fix s) = even_odd_toggle s" "mode (sp0hit_fix s) = mode s"
  "reg_get ShowBG (reg (sp0hit_fix s)) = reg_get ShowBG (reg s)"
  "beam_of (mapper_tick s) = beam_of s"
  by (simp_all add: step_defs beam_of_def)

lemma advance_beam:
  "beam_of (advance w s) =
     (let b = beam_of s in
      if Suc (b_col b) = b_end b
      then b\<lparr>b_col := 0, b_end := 341,
             b_line := (if b_line b + 1 = w then - 1 else b_line b + 1),
             b_odd := (if b_line b + 1 = w then \<not> b_odd b else b_odd b)\<rparr>
      else b\<lparr>b_col := Suc (b_col b)\<rparr>)"
  by (simp add: advance_def beam_of_def Let_def)

lemma beat_beam:
  "beam_of (beat_NTSC s) = beam_step 261 (beam_of s)"
  "beam_of (beat_PAL s) = beam_step 311 (beam_of s)"
  by (simp_all add: beat_NTSC_def beat_PAL_def advance_beam Let_def beam_step_def)
    (simp_all add: beam_of_def graphics_beam)

lemma beats_beam:
  "beam_of ((beat_NTSC ^^ n) s) = (beam_step 261 ^^ n) (beam_of s)"
  "beam_of ((beat_PAL ^^ n) s) = (beam_step 311 ^^ n) (beam_of s)"
  by (induction n) (simp_all add: beat_beam)

text \<open>\<^bold>\<open>C34.\<close> A beat moves the beam as the specification \<open>beam_step\<close> says, in both
  television systems: the column advances by one; the scanline ends when the column
  reaches its length, which is shortened to 340 at column 337 of the pre-render line of an
  odd frame with the background enabled under NTSC; the scanline after the last one (260,
  PAL 310) is the pre-render line, where the parity of the frame flips. Rendering, the
  compositor, the open bus and the vertical-blanking service do not move the beam.\<close>

theorem beat_refines_beam:
  "beam_of (beat_NTSC s) = beam_step 261 (beam_of s)
   \<and> beam_of (beat_PAL s) = beam_step 311 (beam_of s)"
  by (simp add: beat_beam)

section \<open>Scanlines and frames\<close>

lemma in_line_0: "line_start b \<Longrightarrow> in_line b 0 = b"
  by (simp add: in_line_def line_start_def)

lemma beam_step_in_line:
  "Suc k < line_beats b \<Longrightarrow> beam_step w (in_line b k) = in_line b (Suc k)"
  by (auto simp add: beam_step_def in_line_def line_beats_def short_line_def Let_def
      split: if_splits)

lemma beam_step_line_end:
  "Suc k = line_beats b \<Longrightarrow> beam_step w (in_line b k) = next_line w b"
  by (auto simp add: beam_step_def in_line_def next_line_def line_beats_def short_line_def Let_def
      split: if_splits)

lemma beam_within_line:
  assumes "line_start b" and "k < line_beats b"
  shows "(beam_step w ^^ k) b = in_line b k"
  using assms(2)
proof (induction k)
  case 0
  then show ?case
    using assms(1) by (simp add: in_line_0)
next
  case (Suc k)
  then show ?case
    by (simp add: beam_step_in_line)
qed

lemma beam_line:
  assumes "line_start b"
  shows "(beam_step w ^^ line_beats b) b = next_line w b"
proof -
  obtain k where k: "line_beats b = Suc k"
    by (cases "line_beats b") (simp_all add: line_beats_def split: if_splits)
  then have "(beam_step w ^^ k) b = in_line b k"
    using assms by (simp add: beam_within_line)
  then show ?thesis
    using k by (simp add: beam_step_line_end)
qed

lemma next_line_mid:
  "line_start b \<Longrightarrow> b_line b + 1 \<noteq> w \<Longrightarrow> next_line w b = b\<lparr>b_line := b_line b + 1\<rparr>"
  by (simp add: next_line_def line_start_def)

lemma next_line_wrap:
  "line_start b \<Longrightarrow> b_line b + 1 = w \<Longrightarrow>
   next_line w b = b\<lparr>b_line := - 1, b_odd := \<not> b_odd b\<rparr>"
  by (simp add: next_line_def line_start_def)

lemma line_facts [simp]:
  "line_start (b\<lparr>b_line := l\<rparr>) = line_start b"
  "0 \<le> l \<Longrightarrow> line_beats (b\<lparr>b_line := l\<rparr>) = 341"
  by (simp_all add: line_start_def line_beats_def short_line_def)

lemma beam_lines:
  assumes "line_start b" and "b_line b = - 1"
  shows "j < m \<Longrightarrow> (beam_step (int m) ^^ (j * 341 + line_beats b)) b = b\<lparr>b_line := int j\<rparr>"
proof (induction j)
  case 0
  then show ?case
    using assms by (simp add: beam_line next_line_mid)
next
  case (Suc j)
  have e: "Suc j * 341 + line_beats b = 341 + (j * 341 + line_beats b)"
    by simp
  have "(beam_step (int m) ^^ 341) (b\<lparr>b_line := int j\<rparr>) = b\<lparr>b_line := int (Suc j)\<rparr>"
    using beam_line [of "b\<lparr>b_line := int j\<rparr>" "int m"] assms(1) Suc.prems
    by (simp add: next_line_mid ac_simps)
  with Suc show ?case
    by (simp only: e funpow_add o_apply)
qed

lemma beam_frame:
  assumes "line_start b" and "b_line b = - 1" and "0 < m"
  shows "(beam_step (int m) ^^ (m * 341 + line_beats b)) b = b\<lparr>b_odd := \<not> b_odd b\<rparr>"
proof -
  obtain j where "m = Suc j"
    using assms(3) by (cases m) simp_all
  then have j: "j < m" "int j + 1 = int m" and e: "m * 341 + line_beats b = 341 + (j * 341 + line_beats b)"
    by simp_all
  have "(beam_step (int m) ^^ 341) (b\<lparr>b_line := int j\<rparr>)
      = b\<lparr>b_line := - 1, b_odd := \<not> b_odd b\<rparr>"
    using beam_line [of "b\<lparr>b_line := int j\<rparr>" "int m"] assms(1) j(2)
    by (simp add: next_line_wrap)
  moreover have "b\<lparr>b_line := - 1, b_odd := \<not> b_odd b\<rparr> = b\<lparr>b_odd := \<not> b_odd b\<rparr>"
    using assms(2) by simp
  ultimately show ?thesis
    using beam_lines [OF assms(1,2) j(1)] by (simp only: e funpow_add o_apply)
qed

lemma beam_in_frame:
  assumes "line_start b" and "b_line b = - 1" and "j < m" and "r < 341"
  shows "(beam_step (int m) ^^ (r + (j * 341 + line_beats b))) b = in_line (b\<lparr>b_line := int j\<rparr>) r"
proof -
  have "(beam_step (int m) ^^ (r + (j * 341 + line_beats b))) b
    = (beam_step (int m) ^^ r) ((beam_step (int m) ^^ (j * 341 + line_beats b)) b)"
    by (metis funpow_add o_apply)
  then show ?thesis
    using assms beam_within_line [of "b\<lparr>b_line := int j\<rparr>" r "int m"]
    by (simp add: beam_lines)
qed

lemma beam_of_start:
  assumes "scanline s = - 1" and "x_col s = 0" and "scanline_end s = 341"
  shows "line_start (beam_of s)" "b_line (beam_of s) = - 1"
    "line_beats (beam_of s) = prerender_beats s"
  using assms
  by (auto simp add: beam_of_def line_start_def line_beats_def short_line_def prerender_beats_def)

lemma beam_of_sel:
  "scanline s = b_line (beam_of s)" "x_col s = b_col (beam_of s)"
  "scanline_end s = b_end (beam_of s)" "even_odd_toggle s = b_odd (beam_of s)"
  by (simp_all add: beam_of_def)

lemma position_NTSC:
  assumes "scanline s = - 1" and "x_col s = 0" and "scanline_end s = 341"
  shows "k < prerender_beats s \<Longrightarrow>
      scanline ((beat_NTSC ^^ k) s) = - 1 \<and> x_col ((beat_NTSC ^^ k) s) = k"
    and "j < 261 \<Longrightarrow> r < 341 \<Longrightarrow>
      scanline ((beat_NTSC ^^ (r + (j * 341 + prerender_beats s))) s) = int j
      \<and> x_col ((beat_NTSC ^^ (r + (j * 341 + prerender_beats s))) s) = r"
  using beam_of_start [OF assms] beam_within_line [of "beam_of s" k 261]
    beam_in_frame [of "beam_of s" j 261 r]
  by (simp_all add: beam_of_sel beats_beam in_line_def)

text \<open>\<^bold>\<open>C35.\<close> Where the beam is after any number of beats of a frame that starts at
  column 0 of the pre-render line: for the beats of the pre-render line, on that line at
  the column that equals the number of beats; after that, \<open>r\<close> beats into the \<open>j\<close>-th
  full scanline of 341 beats, at column \<open>r\<close> of scanline \<open>j\<close>.\<close>

theorem beam_position:
  assumes "scanline s = - 1" and "x_col s = 0" and "scanline_end s = 341"
  shows "(k < prerender_beats s \<longrightarrow>
      scanline ((beat_NTSC ^^ k) s) = - 1 \<and> x_col ((beat_NTSC ^^ k) s) = k)
    \<and> (j < 261 \<and> r < 341 \<longrightarrow>
      scanline ((beat_NTSC ^^ (r + (j * 341 + prerender_beats s))) s) = int j
      \<and> x_col ((beat_NTSC ^^ (r + (j * 341 + prerender_beats s))) s) = r)"
  using position_NTSC [OF assms] by blast

theorem beam_position_witness:
  "scanline ((beat_NTSC ^^ 100) (blank_ppu\<lparr>scanline := - 1\<rparr>)) = - 1
   \<and> x_col ((beat_NTSC ^^ 100) (blank_ppu\<lparr>scanline := - 1\<rparr>)) = 100
   \<and> scanline ((beat_NTSC ^^ 1374) (blank_ppu\<lparr>scanline := - 1\<rparr>)) = 3
   \<and> x_col ((beat_NTSC ^^ 1374) (blank_ppu\<lparr>scanline := - 1\<rparr>)) = 10"
  using beam_position [of "blank_ppu\<lparr>scanline := - 1\<rparr>" 100 3 10]
  by (simp add: prerender_beats_def)

lemma frame_NTSC:
  assumes "scanline s = - 1" and "x_col s = 0" and "scanline_end s = 341"
  shows "beam_of ((beat_NTSC ^^ (89001 + prerender_beats s)) s)
    = (beam_of s)\<lparr>b_odd := \<not> even_odd_toggle s\<rparr>"
  using beam_of_start [OF assms] beam_frame [of "beam_of s" 261]
  by (simp add: beats_beam beam_of_sel)

lemma frame_PAL:
  assumes "scanline s = - 1" and "x_col s = 0" and "scanline_end s = 341"
  shows "beam_of ((beat_PAL ^^ (106051 + prerender_beats s)) s)
    = (beam_of s)\<lparr>b_odd := \<not> even_odd_toggle s\<rparr>"
  using beam_of_start [OF assms] beam_frame [of "beam_of s" 311]
  by (simp add: beats_beam beam_of_sel)

lemma not_start_NTSC:
  assumes "scanline s = - 1" and "x_col s = 0" and "scanline_end s = 341"
    and "0 < k" and "k < 89001 + prerender_beats s"
  shows "\<not> (scanline ((beat_NTSC ^^ k) s) = - 1 \<and> x_col ((beat_NTSC ^^ k) s) = 0)"
proof (cases "k < prerender_beats s")
  case True
  then show ?thesis
    using position_NTSC(1) [OF assms(1-3), of k] assms(4) by simp
next
  case False
  define d where "d = k - prerender_beats s"
  have "d div 341 < 261" "d mod 341 < 341"
    and k: "k = d mod 341 + (d div 341 * 341 + prerender_beats s)"
    using False assms(5) by (simp_all add: d_def)
  then show ?thesis
    using position_NTSC(2) [OF assms(1-3), of "d div 341" "d mod 341"] by (simp flip: k)
qed

text \<open>\<^bold>\<open>C33.\<close> An NTSC frame takes 89342 beats, or 89341 when it is an odd frame with
  the background enabled: that many beats after column 0 of the pre-render line the beam
  is at column 0 of the pre-render line again, for the first time, with a scanline of 341
  columns ahead and the parity of the frame flipped, so that with the background enabled
  the two lengths alternate. A frame of PAL beats has 312 scanlines: 106392 beats when
  its pre-render line is not shortened.\<close>

theorem frame_length:
  assumes "scanline s = - 1" and "x_col s = 0" and "scanline_end s = 341"
  shows "scanline ((beat_NTSC ^^ (89001 + prerender_beats s)) s) = - 1
    \<and> x_col ((beat_NTSC ^^ (89001 + prerender_beats s)) s) = 0
    \<and> scanline_end ((beat_NTSC ^^ (89001 + prerender_beats s)) s) = 341
    \<and> even_odd_toggle ((beat_NTSC ^^ (89001 + prerender_beats s)) s) = (\<not> even_odd_toggle s)
    \<and> (\<forall>k. 0 < k \<and> k < 89001 + prerender_beats s \<longrightarrow>
          \<not> (scanline ((beat_NTSC ^^ k) s) = - 1 \<and> x_col ((beat_NTSC ^^ k) s) = 0))
    \<and> scanline ((beat_PAL ^^ (106051 + prerender_beats s)) s) = - 1
    \<and> x_col ((beat_PAL ^^ (106051 + prerender_beats s)) s) = 0"
  using frame_NTSC [OF assms] frame_PAL [OF assms] not_start_NTSC [OF assms] assms
  by (simp add: beam_of_sel)

theorem frame_length_witness:
  "scanline ((beat_NTSC ^^ 89342) (blank_ppu\<lparr>scanline := - 1\<rparr>)) = - 1
   \<and> x_col ((beat_NTSC ^^ 89342) (blank_ppu\<lparr>scanline := - 1\<rparr>)) = 0
   \<and> even_odd_toggle ((beat_NTSC ^^ 89342) (blank_ppu\<lparr>scanline := - 1\<rparr>))
   \<and> x_col ((beat_NTSC ^^ 89341)
        (blank_ppu\<lparr>scanline := - 1, even_odd_toggle := True, reg := reg_set ShowBG 1 0\<rparr>)) = 0"
  using frame_length [of "blank_ppu\<lparr>scanline := - 1\<rparr>"]
    frame_length [of "blank_ppu\<lparr>scanline := - 1, even_odd_toggle := True,
      reg := reg_set ShowBG 1 0\<rparr>"]
  by (simp add: prerender_beats_def)

end
