(* ===== verification/Spec2Isabelle.thy ===== *)
theory Spec2Isabelle
  imports PPU_Bus PPU_Beam
begin

text \<open>
  \<^bold>\<open>A verification development for the picture processing unit of an NES emulator\<close>

  The program is \<^verbatim>\<open>src/ppu.cpp\<close>, the class \<^verbatim>\<open>Ppu\<close>: the register interface that the CPU
  sees at ports 0..7, the view of video memory, the per-beat fetch pipeline and sprite
  evaluation, the pixel compositor, and the beat driver with the vertical-blanking state
  machine. The declarations of the class, of the bit-packed registers and of the console
  around it are in a header that is not under \<^verbatim>\<open>src/\<close>; they are modelled from the
  specification (\<^verbatim>\<open>spec.md\<close>, sections 3, 6 and 9).

  \<^bold>\<open>Theories, in the order of the code.\<close>

  \<^item> \<open>PPU_Prelude\<close>: the machine integers (\<open>byte\<close>, \<open>u16\<close>, \<open>u32\<close> as words), bit fields
    (\<open>bf_get\<close>, \<open>bf_set\<close>, \<open>bf_inc\<close>) with their read-after-write laws, masks as arithmetic
    on the unsigned value, and the two lemmas on iterated steps (\<open>funpow_invariant\<close>,
    \<open>funpow_frame\<close>) that lift a property of one beat to a call of \<^verbatim>\<open>Tick\<close>.
  \<^item> \<open>PPU_Registers\<close>: the register bank \<^verbatim>\<open>reg\<close> (32 bits: control, mask, status, OAM
    address) and the latches \<^verbatim>\<open>scroll\<close> and \<^verbatim>\<open>vaddr\<close> as tables of named fields
    (\<open>reg_pos\<close>, \<open>latch_pos\<close>) with \<open>reg_get\<close>, \<open>reg_set\<close>, \<open>latch_get\<close>, \<open>latch_set\<close>,
    \<open>latch_inc\<close>. A latch is an 18-bit word: three bits of fine X below the 15 bits of
    \<^verbatim>\<open>raw\<close>. The lemmas say which field reads what after which assignment, so that the
    component proofs never look at a bit.
  \<^item> \<open>PPU_Memory\<close>: \<^verbatim>\<open>Ppu::mmap\<close>. The function returns a C++ reference; the model returns
    a \<open>vref\<close>, an index into palette RAM or an address of the host memory behind the
    cartridge's pointer tables \<^verbatim>\<open>chr_banks\<close> and \<^verbatim>\<open>Nta\<close>. Host memory is an explicit store,
    so that two nametables that the mapper points at the same bank alias, as they do in the
    program. \<open>region_of\<close> and \<open>locate\<close> are the address space as a specification, and
    \<open>mmap_refines\<close> is the refinement.
  \<^item> \<open>PPU_State\<close>: the data members of \<^verbatim>\<open>Ppu\<close> as the record \<open>ppu\<close>, what the PPU
    touches of the console as the record \<open>nes\<close> (cartridge, frame buffer, interrupt line,
    CPU cycle count, the three callbacks as a trace of \<open>event\<close>s, \<^verbatim>\<open>IO::PutPixel\<close> as a
    function), \<open>mmap_read\<close> and \<open>mmap_write\<close>, and \<^verbatim>\<open>Initialize\<close>, \<^verbatim>\<open>Power\<close>, \<^verbatim>\<open>Reset\<close>.
    \<open>arrays_ok\<close> states the declared sizes of the arrays.
  \<^item> \<open>PPU_Bus\<close>: \<^verbatim>\<open>Ppu::Read\<close> and \<^verbatim>\<open>Ppu::Write\<close>, one definition per case of the two
    \<^verbatim>\<open>switch\<close> statements. \<open>Read\<close> returns the byte and the new state. The theorems give
    the behaviour of every port: status read, the double writes to the scroll and address
    ports, buffered and palette reads of the data port, OAM access, the open bus. The
    lemmas \<open>Write_vaddr_twice\<close>, \<open>Write_data_port\<close> and \<open>Read_data_port\<close> are what a
    sequence of accesses is proved from.
  \<^item> \<open>PPU_Render\<close>: \<^verbatim>\<open>Ppu::rendering_tick\<close> as \<open>sprite_eval \<circ> bg_fetch\<close>, one definition
    per case of its two \<^verbatim>\<open>switch\<close> statements. \<open>rendering_tick_preserves\<close> reduces a
    property of the tick to the same property of every slot; the invariants
    (\<open>arrays_ok\<close>, \<open>counters_ok\<close>) and the frame lemmas are instances. The bit interleaving
    of the two pattern bytes is proved against the decoder \<open>gather\<close>, and the two scroll
    counters against their arithmetic.
  \<^item> \<open>PPU_Pixel\<close>: \<^verbatim>\<open>Ppu::render_pixel\<close>. The sprite loop is the recursion
    \<open>sprite_overlay\<close> over the first \<^verbatim>\<open>sprrenpos\<close> entries of the render table;
    \<open>sprite_pixel\<close> is the colour of one sprite in a column as a specification. The
    theorems bound the palette index, the frame-buffer index and the colour, and
    characterise the loop and the sprite-0 hit.
  \<^item> \<open>PPU_Tick\<close>: \<^verbatim>\<open>Ppu::Tick\<close>, \<^verbatim>\<open>TickNTSC\<close>, \<^verbatim>\<open>TickPAL\<close>. The loop body is written
    twice in the source; the model has one definition per step (\<open>vblank_service\<close>,
    \<open>open_bus_decay\<close>, \<open>graphics\<close>, \<open>pixel_phase\<close>, \<open>sp0hit_fix\<close>, \<open>advance\<close>, \<open>mapper_tick\<close>)
    and composes them as each copy does. \<open>beat_NTSC_preserves\<close> and \<open>beat_PAL_preserves\<close>
    reduce a property of a beat to its steps. \<open>timing_ok\<close>, \<open>vblank_ok\<close> and \<open>ppu_ok\<close> are
    the invariants; \<open>decay\<close> is the specification of the open bus, and \<open>bus_pair\<close> the
    abstraction under which a beat implements it.
  \<^item> \<open>PPU_Beam\<close>: the position of the beam as an abstract machine. \<open>beam_of\<close> takes the
    scanline, the column, the length of the scanline, the frame parity and the condition
    of the shortened pre-render line out of the state; \<open>beam_step\<close> is one beat on them,
    as a specification of the end of the loop body and of line 175. The theory proves
    that a beat implements \<open>beam_step\<close> (\<open>beat_refines_beam\<close>), gives the beam after any
    number of beats of a frame (\<open>beam_position\<close>) and the length of a frame
    (\<open>frame_length\<close>: 89342 beats, 89341 on odd frames with the background enabled).
  \<^item> This theory: the operations of the class as the datatype \<open>op\<close> with the step function
    \<open>step\<close>, sequences of operations (\<open>run\<close>), the states reachable from power-on
    (\<open>reachable\<close>), and the properties that span components.

  \<^bold>\<open>Modelling choices.\<close> Machine integers that can wrap are words of their width
  (\<^verbatim>\<open>uint8_t\<close> data, the 32-bit register bank, \<^verbatim>\<open>unsigned\<close> temporaries); a field
  assignment truncates to the field. The beam position is not a word: \<^verbatim>\<open>scanline\<close> is an
  \<open>int\<close> (it takes the value -1), \<^verbatim>\<open>x\<close>, \<^verbatim>\<open>scanline_end\<close> and the counters are \<open>nat\<close>;
  \<open>timing_ok\<close> bounds them far below the range of \<^verbatim>\<open>int\<close>, so no wrap is lost. The beat
  counter \<^verbatim>\<open>cycles\<close> is the one counter without a bound; it is a 32-bit word and wraps
  (its declaration is outside \<^verbatim>\<open>src/\<close>, and the theorem about it holds of any width). The
  sprite counters are natural numbers: their increments are guarded, so they cannot wrap,
  but a value that an uninitialised counter of a signed type could have at power-on has
  no counterpart. \<open>tile_decode_mode\<close> is false from column 512 on, where the shift of the
  source is undefined; the beam invariant keeps the column below 341. Nothing in
  the program loops without a bound: the sprite loop is structural recursion and a call of
  \<^verbatim>\<open>Tick\<close> is three or four beats, so no fuel is used. Indexing is written as the program
  has it, with the masks \<^verbatim>\<open>& 0x7\<close> and \<^verbatim>\<open>& 0x1F\<close> and the guards \<^verbatim>\<open>sproutpos < 8\<close>; the
  theorems show the indices inside the arrays.

  \<^bold>\<open>Not modelled.\<close> The constructor's dispatch table \<^verbatim>\<open>tick_array\<close> (\<open>Tick\<close> is a case
  distinction on the television system), the empty destructor and \<^verbatim>\<open>OnSettingsChanged\<close>;
  the CPU, the mapper and the host video output, which are outside \<^verbatim>\<open>src/\<close> and appear
  only as the fields of \<open>nes\<close> that the PPU reads and writes. The three sprite counters
  are not initialised by \<^verbatim>\<open>Initialize\<close>; \<open>counters_ok\<close> is therefore an invariant from the
  first state in which it holds, and is not part of \<open>ppu_ok\<close>. The callbacks are events of
  a trace: what the console does inside them (a mapper that switches banks, a CPU that
  accesses a port) is a further operation of \<open>step\<close>, not part of the beat. A list that
  is updated out of range is unchanged in HOL, so the sizes in \<open>arrays_ok\<close> hold by
  construction; that the indices are in range is what \<open>counters_ok\<close>, \<open>mmap_refines\<close> and
  \<open>render_pixel_safe\<close> show.
\<close>

section \<open>The interface of the class\<close>

text \<open>What the console does with the PPU: it powers it on, and then the CPU reads and
  writes its ports between calls of \<^verbatim>\<open>Tick\<close>.\<close>

datatype op = DoTick | DoRead u16 | DoWrite u16 byte | DoPower | DoReset

fun step :: "op \<Rightarrow> ppu \<Rightarrow> ppu" where
  "step DoTick s = Tick s"
| "step (DoRead a) s = snd (Read a s)"
| "step (DoWrite a d) s = Write a d s"
| "step DoPower s = Power s"
| "step DoReset s = Reset s"

definition run :: "op list \<Rightarrow> ppu \<Rightarrow> ppu" where
  "run ops s = fold step ops s"

inductive reachable :: "ppu \<Rightarrow> bool" where
  init: "arrays_ok (Initialize n s) \<Longrightarrow> reachable (Power (Initialize n s))"
| step: "reachable s \<Longrightarrow> reachable (step c s)"

section \<open>Invariants of every reachable state\<close>

lemma lifecycle_frame [ppu_frame, simp]:
  "scanline (Power s) = scanline s" "x_col (Power s) = x_col s"
  "scanline_end (Power s) = scanline_end s" "mode (Power s) = mode s"
  "VBlankState (Power s) = VBlankState s"
  "scanline (Reset s) = scanline s" "x_col (Reset s) = x_col s"
  "scanline_end (Reset s) = scanline_end s" "mode (Reset s) = mode s"
  "VBlankState (Reset s) = VBlankState s"
  by (simp_all add: Power_def Reset_def fill_NRAM_def Let_def)

lemma Read_vblank_ok: "vblank_ok s \<Longrightarrow> vblank_ok (snd (Read a s))"
  by (simp add: vblank_ok_def bus_defs Let_def split: prod.split)

lemma step_mode [simp]: "mode (step c s) = mode s"
  by (cases c) (simp_all add: Read_frame Write_frame)

lemma step_ppu_ok: "ppu_ok s \<Longrightarrow> ppu_ok (step c s)"
proof (cases c)
  case DoTick
  then show "ppu_ok s \<Longrightarrow> ppu_ok (step c s)"
    by (simp add: Tick_ppu_ok)
qed (simp_all add: ppu_ok_def timing_ok_def vblank_ok_def Read_frame Write_frame Read_arrays_ok
    Write_arrays_ok Power_arrays_ok Reset_arrays_ok Read_vblank_ok [unfolded vblank_ok_def])

lemma Initialize_ppu_ok: "arrays_ok (Initialize n s) \<Longrightarrow> ppu_ok (Power (Initialize n s))"
  by (simp add: ppu_ok_def timing_ok_def vblank_ok_def wrap_line_def Power_arrays_ok
      Initialize_def split: tv_mode.split)

lemma run_ppu_ok: "ppu_ok s \<Longrightarrow> ppu_ok (run ops s)"
  unfolding run_def by (induction ops arbitrary: s) (simp_all add: step_ppu_ok)

lemma blank_reachable: "reachable (Power (Initialize blank_nes blank_ppu))"
  by (rule reachable.init)
    (simp add: arrays_ok_def gamepak_ok_def Initialize_def blank_ppu_def blank_nes_def)

text \<open>\<^bold>\<open>C1.\<close> Every state that the console can bring the PPU into, by powering it on
  with arrays of the declared sizes and then ticking, reading, writing, powering and
  resetting in any order, has its arrays at their sizes, its beam inside the frame of its
  television system and its vertical-blanking countdown between -5 and 2.\<close>

theorem reachable_ok: "reachable s \<Longrightarrow> ppu_ok s"
  by (induction rule: reachable.induct) (simp_all add: Initialize_ppu_ok step_ppu_ok)

theorem reachable_ok_witness:
  "reachable (Power (Initialize blank_nes blank_ppu))
   \<and> ppu_ok (Power (Initialize blank_nes blank_ppu))"
  using reachable_ok [OF blank_reachable] by (simp add: blank_reachable)

section \<open>The bus and the beat\<close>

text \<open>\<^bold>\<open>C12.\<close> A read of the status port cancels vertical blanking for the CPU: in the
  beat after it the flag is clear and the interrupt line is low, also when the read came
  in the beats between the start of scanline 241 and the raising of the flag, so that the
  flag of this frame is never seen.\<close>

theorem status_read_suppresses_nmi:
  assumes "a AND 7 = 2" and "VBlankState s \<noteq> - 5"
  shows "reg_get InVBlank (reg (beat_NTSC (snd (Read a s)))) = 0
    \<and> \<not> cpu_nmi (nes (beat_NTSC (snd (Read a s))))"
  using assms by (simp add: vblank_service_flag Read_def read_status_def Let_def)

theorem status_read_suppresses_nmi_witness:
  "(0x2002 :: u16) AND 7 = 2 \<and> VBlankState (blank_ppu\<lparr>VBlankState := 2\<rparr>) \<noteq> - 5
   \<and> reg_get InVBlank (reg (beat_NTSC (snd (Read 0x2002 (blank_ppu\<lparr>VBlankState := 2\<rparr>))))) = 0
   \<and> \<not> cpu_nmi (nes (beat_NTSC (snd (Read 0x2002 (blank_ppu\<lparr>VBlankState := 2\<rparr>)))))"
  using status_read_suppresses_nmi [where a = "0x2002" and s = "blank_ppu\<lparr>VBlankState := 2\<rparr>"]
  by simp

text \<open>\<^bold>\<open>C15.\<close> A byte written to any port stays on the open bus for 77776 beats and is
  gone in the 77777th, if the bus is not refreshed in between.\<close>

theorem write_then_decay:
  assumes "arrays_ok s"
  shows "open_bus ((beat_NTSC ^^ k) (Write a d s)) = (if 77777 \<le> k then 0 else d)"
  using assms by (simp add: beats_open_bus Write_open_bus)

theorem write_then_decay_witness:
  "arrays_ok blank_ppu \<and> open_bus ((beat_NTSC ^^ 77777) (Write 0x2000 0x55 blank_ppu)) = 0
   \<and> open_bus ((beat_NTSC ^^ 77776) (Write 0x2000 0x55 blank_ppu)) = 0x55"
  using write_then_decay [of blank_ppu 77777 "0x2000" "0x55"]
    write_then_decay [of blank_ppu 77776 "0x2000" "0x55"]
  by simp

section \<open>Video memory through the ports\<close>

text \<open>\<^bold>\<open>C36.\<close> A byte written to video memory through the address and data ports is
  read back through them: after the address is loaded again, the first read of the data
  port returns the old buffer and the second returns the byte. This holds below the
  palette (high address byte below \<^verbatim>\<open>0x3E\<close>), with either address increment, with any
  mapping of the nametables, and for every mirror of the two ports.\<close>

theorem vram_port_roundtrip:
  assumes "a6 AND 7 = 6" and "a7 AND 7 = 7" and "arrays_ok s" and "\<not> offset_toggle s"
    and "hi AND 0x3F < 0x3E"
  shows "fst (Read a7 (snd (Read a7 (Write a6 lo (Write a6 hi
           (Write a7 v (Write a6 lo (Write a6 hi s)))))))) = v"
proof -
  define A :: u32 where "A = push_bit 8 (ucast (hi AND 0x3F)) OR ucast lo"
  define s1 where "s1 = Write a6 lo (Write a6 hi s)"
  define s2 where "s2 = Write a7 v s1"
  define s3 where "s3 = Write a6 lo (Write a6 hi s2)"
  define s4 where "s4 = snd (Read a7 s3)"
  note np = below_palette [OF assms(5), of lo, folded A_def]
  have s1: "latch_get raw (vaddr s1) = A" "\<not> offset_toggle s1" "arrays_ok s1"
    using assms(1,3,4) by (simp_all add: s1_def A_def Write_vaddr_twice Write_arrays_ok)
  have s2: "mmap_read s2 A = v" "\<not> offset_toggle s2"
    using assms(2) s1 by (simp_all add: s2_def Write_data_port mmap_read_after_write)
  have s3: "latch_get raw (vaddr s3) = A" "mmap_read s3 A = v" "reg s3 = reg s2"
    using assms(1) s2 by (simp_all add: s3_def A_def Write_vaddr_twice mmap_read_def)
  have s4: "read_buffer s4 = v"
    "latch_get raw (vaddr s4) = take_bit 15 (A + (if reg_get Inc (reg s2) \<noteq> 0 then 32 else 1))"
    using assms(2) s3 np(1) by (simp_all add: s4_def Read_data_port)
  have "fst (Read a7 s4) = v"
    using assms(2) s4 np(2) by (simp add: Read_data_port)
  then show ?thesis
    by (simp add: s4_def s3_def s2_def s1_def)
qed

theorem vram_port_roundtrip_witness:
  "(0x2006 :: u16) AND 7 = 6 \<and> (0x2007 :: u16) AND 7 = 7 \<and> arrays_ok blank_ppu
   \<and> \<not> offset_toggle blank_ppu \<and> (0x20 :: byte) AND 0x3F < 0x3E
   \<and> fst (Read 0x2007 (snd (Read 0x2007 (Write 0x2006 0x00 (Write 0x2006 0x20
        (Write 0x2007 0x2A (Write 0x2006 0x00 (Write 0x2006 0x20 blank_ppu)))))))) = 0x2A"
  using vram_port_roundtrip [where s = blank_ppu and ?a6.0 = "0x2006" and ?a7.0 = "0x2007"
      and hi = "0x20" and lo = "0x00" and v = "0x2A"]
  by simp

end
